theory Spec2Isabelle
  imports Complex_Main
begin

section \<open>Data model of app/main.py\<close>

text \<open>
  The payload returned by \<open>resp.json()\<close> is a tree of Python values. \<open>JNull\<close> is Python's
  \<open>None\<close>, \<open>JObj\<close> a \<open>dict\<close> given by its items (looked up with \<open>map_of\<close>), \<open>JArr\<close> a
  \<open>list\<close>. A number is kept as a real: the code only ever tests a number for being zero.
\<close>

datatype json =
    JNull
  | JBool bool
  | JNum real
  | JStr string
  | JArr "json list"
  | JObj "(string \<times> json) list"

text \<open>
  The exceptions that can leave a function of the module: the \<open>HTTPException\<close> the code
  raises itself (status code and detail), and the built-in exceptions raised by reading a
  payload of an unexpected shape.
\<close>

datatype exn =
    HTTPException nat string
  | AttributeError
  | KeyError
  | TypeError

text \<open>
  \<open>config.yaml\<close> after \<open>yaml.safe_load\<close>: a list of leagues and a dict of teams, kept as its
  items in iteration order. Every field is read with \<open>.get\<close>, so each may be absent
  (\<open>None\<close>); when present it has the type the annotations of the module give it: the
  slugs, paths and names are \<open>str\<close>, the ESPN id is an \<open>int\<close>. The field \<open>league\<close> of a team
  is named \<open>team_league\<close> here, since a league has a field \<open>league\<close> too.
\<close>

record league_cfg =
  league :: "string option"
  sport_path :: "string option"
  sport :: "string option"

record team_cfg =
  name :: "string option"
  team_league :: "string option"
  espn_slug :: "string option"
  espn_id :: "int option"

record config =
  leagues :: "league_cfg list"
  teams :: "(string \<times> team_cfg) list"

text \<open>
  The mutable state of the process is the global \<open>cache\<close>, a dict from key to
  \<open>(timestamp, data)\<close>. The state also counts the readings of \<open>time.time()\<close> made so far and
  records the URLs requested from upstream so far, in order. A timestamp is the real
  number that the float returned by \<open>time.time()\<close> denotes. The outside world is a
  parameter: \<open>clock n\<close> is what the \<open>n\<close>-th reading of \<open>time.time()\<close> returns, and
  \<open>upstream n url\<close> is the outcome of the \<open>n\<close>-th request when it asks for \<open>url\<close>: either
  the text of the \<open>requests.RequestException\<close> raised by \<open>requests.get\<close>,
  \<open>raise_for_status\<close> or \<open>json\<close>, or the decoded body.
\<close>

record world =
  cache :: "string \<rightharpoonup> (real \<times> json)"
  ticks :: nat
  requests :: "string list"

record env =
  clock :: "nat \<Rightarrow> real"
  upstream :: "nat \<Rightarrow> string \<Rightarrow> string + json"

definition CACHE_EXPIRATION :: real where
  "CACHE_EXPIRATION = 60 * 60"

section \<open>Subtraction of timestamps\<close>

text \<open>
  \<open>time.time()\<close> returns a Python \<open>float\<close>, an IEEE 754 binary64 number, and \<open>now - ts\<close> is
  the binary64 subtraction: the exact difference rounded to the nearest representable
  number, ties going to the even significand. A timestamp is kept as the real number it
  denotes. \<open>floor_log2 y\<close> is the exponent of a positive \<open>y\<close>, the integer \<open>e\<close> with
  \<open>2^e \<le> y < 2^(e + 1)\<close>; a number with exponent \<open>e\<close> is rounded to a multiple of
  \<open>2^(e - 52)\<close>, with the exponent of the subnormal range as the least one. A difference
  beyond the largest binary64 number, which the hardware turns into an infinity, keeps
  its finite value here: it compares with 3600 as the infinity does.
\<close>

function ilog2 :: "int \<Rightarrow> nat" where
  "ilog2 n = (if n < 2 then 0 else Suc (ilog2 (n div 2)))"
  by pat_completeness auto
termination
  by (relation "measure nat") auto

declare ilog2.simps [simp del]

definition floor_log2 :: "real \<Rightarrow> int" where
  "floor_log2 y =
     (if 1 \<le> y then int (ilog2 \<lfloor>y\<rfloor>)
      else - int (Suc (ilog2 (\<lceil>1 / y\<rceil> - 1))))"

definition round_half_even :: "real \<Rightarrow> int" where
  "round_half_even q =
     (let f = \<lfloor>q\<rfloor>; r = q - of_int f
      in if r < 1 / 2 then f else if 1 / 2 < r then f + 1 else if even f then f else f + 1)"

definition round_double :: "real \<Rightarrow> real" where
  "round_double x =
     (if x = 0 then 0
      else let e = max (floor_log2 \<bar>x\<bar>) (- 1022);
               u = 2 powi (e - 52)
           in sgn x * of_int (round_half_even (\<bar>x\<bar> / u)) * u)"

definition float_sub :: "real \<Rightarrow> real \<Rightarrow> real" where
  "float_sub x y = round_double (x - y)"

section \<open>String formatting and truthiness\<close>

fun str_nat :: "nat \<Rightarrow> string" where
  "str_nat n = (if n < 10 then [''0123456789'' ! n]
                else str_nat (n div 10) @ [''0123456789'' ! (n mod 10)])"

declare str_nat.simps [simp del]

definition str_int :: "int \<Rightarrow> string" where
  "str_int i = (if i < 0 then CHR ''-'' # str_nat (nat (- i)) else str_nat (nat i))"

text \<open>What an f-string puts for \<open>{x}\<close>: \<open>str(x)\<close>, which is \<open>None\<close> for an absent value.\<close>

definition fmt_str :: "string option \<Rightarrow> string" where
  "fmt_str x = (case x of None \<Rightarrow> ''None'' | Some s \<Rightarrow> s)"

definition fmt_int :: "int option \<Rightarrow> string" where
  "fmt_int x = (case x of None \<Rightarrow> ''None'' | Some i \<Rightarrow> str_int i)"

text \<open>Python truthiness, as used by \<open>not x\<close>, \<open>x or y\<close> and \<open>... if x else ...\<close>.\<close>

definition truthy_str :: "string option \<Rightarrow> bool" where
  "truthy_str x = (case x of None \<Rightarrow> False | Some s \<Rightarrow> s \<noteq> [])"

definition truthy_int :: "int option \<Rightarrow> bool" where
  "truthy_int x = (case x of None \<Rightarrow> False | Some i \<Rightarrow> i \<noteq> 0)"

fun truthy :: "json \<Rightarrow> bool" where
  "truthy JNull = False"
| "truthy (JBool b) = b"
| "truthy (JNum r) = (r \<noteq> 0)"
| "truthy (JStr s) = (s \<noteq> [])"
| "truthy (JArr xs) = (xs \<noteq> [])"
| "truthy (JObj kvs) = (kvs \<noteq> [])"

definition py_or :: "string option \<Rightarrow> string option \<Rightarrow> string option" where
  "py_or a b = (if truthy_str a then a else b)"

text \<open>\<open>d.get(k, default)\<close>: only a dict has the method.\<close>

fun dict_get :: "json \<Rightarrow> string \<Rightarrow> json \<Rightarrow> exn + json" where
  "dict_get (JObj kvs) k d = Inr (case map_of kvs k of None \<Rightarrow> d | Some v \<Rightarrow> v)"
| "dict_get _ k d = Inl AttributeError"

text \<open>\<open>x[0]\<close> on a truthy value.\<close>

fun index0 :: "json \<Rightarrow> exn + json" where
  "index0 (JArr (x # xs)) = Inr x"
| "index0 (JStr (c # cs)) = Inr (JStr [c])"
| "index0 (JObj kvs) = Inl KeyError"
| "index0 _ = Inl TypeError"

definition opt_json :: "string option \<Rightarrow> json" where
  "opt_json x = (case x of None \<Rightarrow> JNull | Some s \<Rightarrow> JStr s)"

section \<open>Upstream fetch and cache\<close>

definition espn_url :: "string \<Rightarrow> string option \<Rightarrow> int option \<Rightarrow> string" where
  "espn_url sport_slug league_slug team_id =
     ''https://site.api.espn.com/apis/site/v2/sports/'' @ sport_slug @ ''/''
       @ fmt_str league_slug @ ''/teams/'' @ fmt_int team_id"

definition fetch_team_data ::
  "env \<Rightarrow> world \<Rightarrow> string \<Rightarrow> string option \<Rightarrow> int option \<Rightarrow> (exn + json) \<times> world" where
  "fetch_team_data e st sport_slug league_slug team_id =
     (let url = espn_url sport_slug league_slug team_id;
          st' = st\<lparr>requests := requests st @ [url]\<rparr>
      in case upstream e (length (requests st)) url of
           Inr body \<Rightarrow> (Inr body, st')
         | Inl err \<Rightarrow> (Inl (HTTPException 500 (''Error fetching ESPN data: '' @ err)), st'))"

definition cache_key :: "string option \<Rightarrow> string option \<Rightarrow> string" where
  "cache_key league_slug team_slug = fmt_str league_slug @ '':'' @ fmt_str team_slug"

definition get_cached_team_data ::
  "env \<Rightarrow> world \<Rightarrow> string \<Rightarrow> string option \<Rightarrow> string option \<Rightarrow> int option
     \<Rightarrow> (exn + json) \<times> world" where
  "get_cached_team_data e st sport_slug league_slug team_slug team_id =
     (let key = cache_key league_slug team_slug;
          now = clock e (ticks st);
          st1 = st\<lparr>ticks := Suc (ticks st)\<rparr>;
          refresh = (case fetch_team_data e st1 sport_slug league_slug team_id of
                       (Inl ex, st2) \<Rightarrow> (Inl ex, st2)
                     | (Inr data, st2) \<Rightarrow>
                         (Inr data, st2\<lparr>cache := (cache st2)(key \<mapsto> (now, data))\<rparr>))
      in case cache st1 key of
           Some (ts, data) \<Rightarrow>
             if float_sub now ts < CACHE_EXPIRATION then (Inr data, st1) else refresh
         | None \<Rightarrow> refresh)"

section \<open>Configuration lookup\<close>

fun find_sport_slug_loop :: "league_cfg list \<Rightarrow> string option \<Rightarrow> string option" where
  "find_sport_slug_loop [] league_slug = None"
| "find_sport_slug_loop (l # rest) league_slug =
     (if league l = league_slug then py_or (sport_path l) (sport l)
      else find_sport_slug_loop rest league_slug)"

definition find_sport_slug :: "config \<Rightarrow> string option \<Rightarrow> string option" where
  "find_sport_slug cfg league_slug = find_sport_slug_loop (leagues cfg) league_slug"

section \<open>Endpoints\<close>

fun api_team_loop ::
  "env \<Rightarrow> config \<Rightarrow> world \<Rightarrow> string \<Rightarrow> string \<Rightarrow> (string \<times> team_cfg) list
     \<Rightarrow> (exn + json) \<times> world" where
  "api_team_loop e cfg st team_slug league_slug [] =
     (Inl (HTTPException 404 ''Team or league not found in config''), st)"
| "api_team_loop e cfg st team_slug league_slug ((team_key, team_info) # rest) =
     (if espn_slug team_info = Some team_slug \<and> team_league team_info = Some league_slug then
        (if \<not> truthy_int (espn_id team_info) then
           (Inl (HTTPException 404 ''Team ESPN ID not found in config''), st)
         else case find_sport_slug cfg (Some league_slug) of
             None \<Rightarrow> (Inl (HTTPException 404 ''Sport slug not found in config''), st)
           | Some sport_slug \<Rightarrow>
               if sport_slug = [] then
                 (Inl (HTTPException 404 ''Sport slug not found in config''), st)
               else get_cached_team_data e st sport_slug (Some league_slug) (Some team_slug)
                      (espn_id team_info))
      else api_team_loop e cfg st team_slug league_slug rest)"

definition api_team :: "env \<Rightarrow> config \<Rightarrow> world \<Rightarrow> string \<Rightarrow> string \<Rightarrow> (exn + json) \<times> world" where
  "api_team e cfg st team_slug league_slug =
     api_team_loop e cfg st team_slug league_slug (teams cfg)"

fun api_team_no_league_loop ::
  "env \<Rightarrow> config \<Rightarrow> world \<Rightarrow> string \<Rightarrow> (string \<times> team_cfg) list \<Rightarrow> (exn + json) \<times> world" where
  "api_team_no_league_loop e cfg st team_slug [] =
     (Inl (HTTPException 404 ''Team not found in config''), st)"
| "api_team_no_league_loop e cfg st team_slug ((team_key, team_info) # rest) =
     (if espn_slug team_info = Some team_slug then
        (if \<not> truthy_int (espn_id team_info) \<or> \<not> truthy_str (team_league team_info) then
           (Inl (HTTPException 404 ''Team ESPN ID or league not found in config''), st)
         else case find_sport_slug cfg (team_league team_info) of
             None \<Rightarrow> (Inl (HTTPException 404 ''Sport slug not found in config''), st)
           | Some sport_slug \<Rightarrow>
               if sport_slug = [] then
                 (Inl (HTTPException 404 ''Sport slug not found in config''), st)
               else get_cached_team_data e st sport_slug (team_league team_info)
                      (Some team_slug) (espn_id team_info))
      else api_team_no_league_loop e cfg st team_slug rest)"

definition api_team_no_league :: "env \<Rightarrow> config \<Rightarrow> world \<Rightarrow> string \<Rightarrow> (exn + json) \<times> world" where
  "api_team_no_league e cfg st team_slug =
     api_team_no_league_loop e cfg st team_slug (teams cfg)"

text \<open>\<open>data.get("team", {}).get("nextEvent", [])\<close>\<close>

definition fixtures_of :: "json \<Rightarrow> exn + json" where
  "fixtures_of data =
     (case dict_get data ''team'' (JObj []) of
        Inl ex \<Rightarrow> Inl ex
      | Inr team \<Rightarrow> dict_get team ''nextEvent'' (JArr []))"

fun api_fixtures_loop ::
  "env \<Rightarrow> config \<Rightarrow> world \<Rightarrow> string \<Rightarrow> string \<Rightarrow> (string \<times> team_cfg) list
     \<Rightarrow> (exn + json) \<times> world" where
  "api_fixtures_loop e cfg st team_slug league_slug [] =
     (Inl (HTTPException 404 ''Team or league not found in config''), st)"
| "api_fixtures_loop e cfg st team_slug league_slug ((team_key, team_info) # rest) =
     (if espn_slug team_info = Some team_slug \<and> team_league team_info = Some league_slug then
        (if \<not> truthy_int (espn_id team_info) then
           (Inl (HTTPException 404 ''Team ESPN ID not found in config''), st)
         else case find_sport_slug cfg (Some league_slug) of
             None \<Rightarrow> (Inl (HTTPException 404 ''Sport slug not found in config''), st)
           | Some sport_slug \<Rightarrow>
               if sport_slug = [] then
                 (Inl (HTTPException 404 ''Sport slug not found in config''), st)
               else
                 (case get_cached_team_data e st sport_slug (Some league_slug)
                         (Some team_slug) (espn_id team_info) of
                    (Inl ex, st') \<Rightarrow> (Inl ex, st')
                  | (Inr data, st') \<Rightarrow>
                      (case fixtures_of data of
                         Inl ex \<Rightarrow> (Inl ex, st')
                       | Inr fixtures \<Rightarrow> (Inr (JObj [(''fixtures'', fixtures)]), st'))))
      else api_fixtures_loop e cfg st team_slug league_slug rest)"

definition api_fixtures ::
  "env \<Rightarrow> config \<Rightarrow> world \<Rightarrow> string \<Rightarrow> string \<Rightarrow> (exn + json) \<times> world" where
  "api_fixtures e cfg st team_slug league_slug =
     api_fixtures_loop e cfg st team_slug league_slug (teams cfg)"

text \<open>
  \<open>logos = team_data.get("team", {}).get("logos", [])\<close> and
  \<open>logo_url = logos[0].get("href") if logos else None\<close>
\<close>

definition logo_url_of :: "json \<Rightarrow> exn + json" where
  "logo_url_of team_data =
     (case dict_get team_data ''team'' (JObj []) of
        Inl ex \<Rightarrow> Inl ex
      | Inr team \<Rightarrow>
          (case dict_get team ''logos'' (JArr []) of
             Inl ex \<Rightarrow> Inl ex
           | Inr logos \<Rightarrow>
               if truthy logos then
                 (case index0 logos of
                    Inl ex \<Rightarrow> Inl ex
                  | Inr first \<Rightarrow> dict_get first ''href'' JNull)
               else Inr JNull))"

definition team_row :: "team_cfg \<Rightarrow> json \<Rightarrow> json" where
  "team_row team_info logo_url =
     JObj [(''name'', opt_json (name team_info)),
           (''league'', opt_json (team_league team_info)),
           (''espn_slug'', opt_json (espn_slug team_info)),
           (''logo'', logo_url)]"

text \<open>
  The loop of \<open>get_all_teams\<close>, with \<open>results\<close> as it stands before the remaining teams
  are visited. An exception raised inside the \<open>try\<close> block, an \<open>HTTPException\<close> among
  them, is caught by \<open>except Exception\<close> and the team is skipped.
\<close>

fun get_all_teams_loop ::
  "env \<Rightarrow> config \<Rightarrow> world \<Rightarrow> json list \<Rightarrow> (string \<times> team_cfg) list \<Rightarrow> json list \<times> world" where
  "get_all_teams_loop e cfg st results [] = (results, st)"
| "get_all_teams_loop e cfg st results ((team_key, team_info) # rest) =
     (case find_sport_slug cfg (team_league team_info) of
        None \<Rightarrow> get_all_teams_loop e cfg st results rest
      | Some sport_slug \<Rightarrow>
          if sport_slug = [] then get_all_teams_loop e cfg st results rest
          else
            (case get_cached_team_data e st sport_slug (team_league team_info)
                    (espn_slug team_info) (espn_id team_info) of
               (Inl ex, st') \<Rightarrow> get_all_teams_loop e cfg st' results rest
             | (Inr team_data, st') \<Rightarrow>
                 (case logo_url_of team_data of
                    Inl ex \<Rightarrow> get_all_teams_loop e cfg st' results rest
                  | Inr logo_url \<Rightarrow>
                      get_all_teams_loop e cfg st' (results @ [team_row team_info logo_url])
                        rest)))"

definition get_all_teams :: "env \<Rightarrow> config \<Rightarrow> world \<Rightarrow> json \<times> world" where
  "get_all_teams e cfg st =
     (case get_all_teams_loop e cfg st [] (teams cfg) of (results, st') \<Rightarrow> (JArr results, st'))"

section \<open>Vocabulary of the statements\<close>

text \<open>
  An entry is fresh when it is present and its age as the code computes it, the float
  \<open>now - ts\<close> of the current reading of the clock and the stored timestamp, is below
  \<open>CACHE_EXPIRATION\<close>.
\<close>

definition fresh :: "env \<Rightarrow> world \<Rightarrow> string \<Rightarrow> bool" where
  "fresh e st key =
     (case cache st key of None \<Rightarrow> False
      | Some (ts, data) \<Rightarrow> float_sub (clock e (ticks st)) ts < CACHE_EXPIRATION)"


text \<open>
  The resolver as the specification describes it, written with \<open>find\<close> rather than as a
  loop: take the first team with the requested slug and league; fail when there is none
  or when its ESPN id is absent or zero; then look the sport slug up, failing when it is
  absent or empty. The result is the detail of the failure, or the sport slug and the id
  that go to the cache.
\<close>

definition resolve_spec :: "config \<Rightarrow> string \<Rightarrow> string \<Rightarrow> string + (string \<times> int option)" where
  "resolve_spec cfg team_slug league_slug =
     (case find (\<lambda>(k, t). espn_slug t = Some team_slug \<and> team_league t = Some league_slug)
             (teams cfg) of
        None \<Rightarrow> Inl ''Team or league not found in config''
      | Some (k, t) \<Rightarrow>
          if espn_id t = None \<or> espn_id t = Some 0 then Inl ''Team ESPN ID not found in config''
          else (case find_sport_slug cfg (Some league_slug) of
                  None \<Rightarrow> Inl ''Sport slug not found in config''
                | Some s \<Rightarrow> if s = [] then Inl ''Sport slug not found in config''
                            else Inr (s, espn_id t)))"

text \<open>
  The same for a request that names no league: the first team with the requested slug,
  whose own league must then be present and not empty.
\<close>

definition resolve_no_league_spec ::
  "config \<Rightarrow> string \<Rightarrow> string + (string \<times> string option \<times> int option)" where
  "resolve_no_league_spec cfg team_slug =
     (case find (\<lambda>(k, t). espn_slug t = Some team_slug) (teams cfg) of
        None \<Rightarrow> Inl ''Team not found in config''
      | Some (k, t) \<Rightarrow>
          if espn_id t = None \<or> espn_id t = Some 0
             \<or> team_league t = None \<or> team_league t = Some []
          then Inl ''Team ESPN ID or league not found in config''
          else (case find_sport_slug cfg (team_league t) of
                  None \<Rightarrow> Inl ''Sport slug not found in config''
                | Some s \<Rightarrow> if s = [] then Inl ''Sport slug not found in config''
                            else Inr (s, team_league t, espn_id t)))"

text \<open>
  The value at the path \<open>team.nextEvent\<close> of a payload: a member exists only in a dict
  that has the key, so the path is absent when either level is.
\<close>

definition json_member :: "json \<Rightarrow> string \<Rightarrow> json option" where
  "json_member v k = (case v of JObj kvs \<Rightarrow> map_of kvs k | _ \<Rightarrow> None)"

definition team_next_event :: "json \<Rightarrow> json option" where
  "team_next_event data =
     (case json_member data ''team'' of None \<Rightarrow> None | Some team \<Rightarrow> json_member team ''nextEvent'')"

text \<open>
  A payload whose \<open>team\<close> can be read with \<open>.get\<close>: the payload is a dict, and its member
  \<open>team\<close>, when there is one, is a dict.
\<close>

definition is_object :: "json \<Rightarrow> bool" where
  "is_object v = (case v of JObj kvs \<Rightarrow> True | _ \<Rightarrow> False)"

definition team_readable :: "json \<Rightarrow> bool" where
  "team_readable data =
     (is_object data \<and> (case json_member data ''team'' of None \<Rightarrow> True | Some team \<Rightarrow> is_object team))"

text \<open>
  One pass through the body of the loop of \<open>get_all_teams\<close>: the row appended for the
  team, if any, and the state after it.
\<close>

definition team_step :: "env \<Rightarrow> config \<Rightarrow> world \<Rightarrow> team_cfg \<Rightarrow> json option \<times> world" where
  "team_step e cfg st t =
     (case find_sport_slug cfg (team_league t) of
        None \<Rightarrow> (None, st)
      | Some s \<Rightarrow>
          if s = [] then (None, st)
          else (case get_cached_team_data e st s (team_league t) (espn_slug t) (espn_id t) of
                  (Inl ex, st') \<Rightarrow> (None, st')
                | (Inr data, st') \<Rightarrow>
                    (case logo_url_of data of
                       Inl ex \<Rightarrow> (None, st')
                     | Inr logo \<Rightarrow> (Some (team_row t logo), st'))))"

section \<open>Example configurations and surroundings\<close>

text \<open>
  A clock that always shows \<open>now\<close>, an upstream that answers by URL alone, and a process
  that has just started with the given cache entries.
\<close>

definition demo_env :: "real \<Rightarrow> (string \<Rightarrow> string + json) \<Rightarrow> env" where
  "demo_env now answer = \<lparr>clock = (\<lambda>n. now), upstream = (\<lambda>n. answer)\<rparr>"

definition demo_world :: "(string \<times> real \<times> json) list \<Rightarrow> world" where
  "demo_world entries = \<lparr>cache = map_of entries, ticks = 0, requests = []\<rparr>"

text \<open>Upstreams: one echoes the URL, one is down, one answers every URL with one body.\<close>

definition echo :: "string \<Rightarrow> string + json" where
  "echo url = Inr (JStr url)"

definition down :: "string \<Rightarrow> string + json" where
  "down url = Inl ''503 Server Error''"

definition answers :: "json \<Rightarrow> string \<Rightarrow> string + json" where
  "answers body url = Inr body"

definition demo_payload :: json where
  "demo_payload =
     JObj [(''team'',
            JObj [(''id'', JStr ''359''),
                  (''nextEvent'', JArr [JStr ''Arsenal v Chelsea'']),
                  (''logos'', JArr [JObj [(''href'', JStr ''https://a.espncdn.com/i/359.png'')]])])]"

text \<open>
  An upstream that knows no team \<open>None\<close> in \<open>eng.1\<close> and answers every other URL with a
  payload whose logo is that URL.
\<close>

definition logo_payload :: "string \<Rightarrow> json" where
  "logo_payload href = JObj [(''team'', JObj [(''logos'', JArr [JObj [(''href'', JStr href)]])])]"

definition reject_none :: "string \<Rightarrow> string + json" where
  "reject_none url =
     (if url = ''https://site.api.espn.com/apis/site/v2/sports/soccer/eng.1/teams/None''
      then Inl ''404 Client Error'' else Inr (logo_payload url))"

definition demo_leagues :: "league_cfg list" where
  "demo_leagues =
     [\<lparr>league = Some ''eng.1'', sport_path = None, sport = Some ''soccer''\<rparr>,
      \<lparr>league = Some ''nba'', sport_path = Some ''basketball'', sport = Some ''hoops''\<rparr>,
      \<lparr>league = Some ''misc'', sport_path = Some [], sport = Some ''soccer''\<rparr>,
      \<lparr>league = Some ''void'', sport_path = None, sport = None\<rparr>]"

definition demo_team :: "string \<Rightarrow> string \<Rightarrow> string \<Rightarrow> int option \<Rightarrow> string \<times> team_cfg" where
  "demo_team nm lg slug tid =
     (nm, \<lparr>name = Some nm, team_league = Some lg, espn_slug = Some slug, espn_id = tid\<rparr>)"

definition demo_config :: "(string \<times> team_cfg) list \<Rightarrow> config" where
  "demo_config ts = \<lparr>leagues = demo_leagues, teams = ts\<rparr>"

definition blank_path_config :: config where
  "blank_path_config =
     \<lparr>leagues = [\<lparr>league = Some ''misc'', sport_path = Some [], sport = Some ''soccer''\<rparr>],
      teams = []\<rparr>"

definition colon_config :: config where
  "colon_config =
     \<lparr>leagues = [\<lparr>league = Some ''a:b'', sport_path = None, sport = Some ''soccer''\<rparr>,
                 \<lparr>league = Some ''a'', sport_path = None, sport = Some ''soccer''\<rparr>],
      teams = [demo_team ''first'' ''a:b'' ''c'' (Some 1),
               demo_team ''second'' ''a'' ''b:c'' (Some 2)]\<rparr>"

lemmas demo_cfg_simps = demo_config_def demo_team_def demo_leagues_def find_sport_slug_def
  py_or_def truthy_str_def resolve_spec_def resolve_no_league_spec_def

section \<open>Rounding\<close>

lemma ilog2_bounds:
  "0 < n \<Longrightarrow> 2 ^ ilog2 n \<le> n \<and> n < 2 * 2 ^ ilog2 n"
proof (induction n rule: ilog2.induct)
  case (1 n)
  show ?case
  proof (cases "n < 2")
    case True
    with "1.prems" have "n = 1" by simp
    then show ?thesis by (simp add: ilog2.simps)
  next
    case False
    then have pos: "0 < n div 2" by simp
    from "1.IH" [OF False pos]
    have lo: "2 ^ ilog2 (n div 2) \<le> n div 2" and hi: "n div 2 < 2 * 2 ^ ilog2 (n div 2)"
      by simp_all
    have il: "ilog2 n = Suc (ilog2 (n div 2))"
      using False by (subst ilog2.simps) simp
    from lo have "2 * 2 ^ ilog2 (n div 2) \<le> n" by linarith
    moreover from hi have "n < 2 * (2 * 2 ^ ilog2 (n div 2))" by linarith
    ultimately show ?thesis by (simp add: il)
  qed
qed

lemma round_half_even_of_int [simp]: "round_half_even (of_int k) = k"
  by (simp add: round_half_even_def)

lemma round_half_even_ge_floor: "\<lfloor>q\<rfloor> \<le> round_half_even q"
  by (simp add: round_half_even_def Let_def)

lemma round_half_even_ge: "of_int n \<le> q \<Longrightarrow> n \<le> round_half_even q"
  using round_half_even_ge_floor [of q] le_floor_iff [of n q] by linarith

lemma round_double_of_int:
  assumes "\<bar>k\<bar> < 2 ^ 53"
  shows "round_double (of_int k) = of_int k"
proof (cases "k = 0")
  case True
  then show ?thesis by (simp add: round_double_def)
next
  case False
  define n where "n = \<bar>k\<bar>"
  define j where "j = ilog2 n"
  have npos: "0 < n" using False by (simp add: n_def)
  have absk: "\<bar>of_int k :: real\<bar> = of_int n" by (simp add: n_def)
  from ilog2_bounds [OF npos] have lo: "2 ^ j \<le> n" by (simp add: j_def)
  have "n < 2 ^ 53" using assms by (simp add: n_def)
  with lo have "(2::int) ^ j < 2 ^ 53" by linarith
  then have "j < 53" by (rule power_less_imp_less_exp [rotated]) simp
  then have j: "j \<le> 52" by simp
  have fl: "floor_log2 (of_int n) = int j"
    using npos by (simp add: floor_log2_def j_def)
  have u: "(2::real) powi (int j - 52) = 1 / 2 ^ (52 - j)"
    using j by (simp add: power_int_diff power_diff)
  have q: "real_of_int n / (1 / 2 ^ (52 - j)) = of_int (n * 2 ^ (52 - j))"
    by simp
  have "round_double (of_int k) =
          sgn (of_int k) * of_int (round_half_even (of_int n / (1 / 2 ^ (52 - j)))) * (1 / 2 ^ (52 - j))"
    using False by (simp add: round_double_def absk fl u Let_def)
  also have "\<dots> = sgn (of_int k) * of_int n"
    by (simp only: q round_half_even_of_int) simp
  also have "\<dots> = of_int k"
    by (simp add: n_def sgn_if)
  finally show ?thesis .
qed

lemma round_double_ge_3600:
  assumes "3600 \<le> x"
  shows "3600 \<le> round_double x"
proof -
  define n where "n = \<lfloor>x\<rfloor>"
  define j where "j = ilog2 n"
  have xpos: "0 < x" and x1: "1 \<le> x" using assms by simp_all
  have n3600: "3600 \<le> n" using assms by (simp add: n_def le_floor_iff)
  then have npos: "0 < n" by simp
  from ilog2_bounds [OF npos] have lo: "2 ^ j \<le> n" and hi: "n < 2 * 2 ^ j"
    by (simp_all add: j_def)
  have nx: "of_int n \<le> x" by (simp add: n_def)
  have "(2::int) ^ 11 < 2 ^ Suc j" using n3600 hi by simp
  then have "11 < Suc j" by (rule power_less_imp_less_exp [rotated]) simp
  then have j11: "11 \<le> j" by simp
  define u where "u = (2::real) powi (int j - 52)"
  have upos: "0 < u" by (simp add: u_def)
  have rd: "round_double x = of_int (round_half_even (x / u)) * u"
    using xpos x1 by (simp add: round_double_def floor_log2_def n_def j_def u_def Let_def)
  show ?thesis
  proof (cases "j = 11")
    case True
    then have u41: "u = 1 / 2 ^ 41" by (simp add: u_def power_int_minus_divide)
    have "of_int (3600 * 2 ^ 41) \<le> x / u" using assms by (simp add: u41)
    then have "3600 * 2 ^ 41 \<le> round_half_even (x / u)" by (rule round_half_even_ge)
    then have "real_of_int (3600 * 2 ^ 41) \<le> of_int (round_half_even (x / u))"
      by (simp only: of_int_le_iff)
    then have "real_of_int (3600 * 2 ^ 41) * u \<le> of_int (round_half_even (x / u)) * u"
      using upos by (simp only: mult_le_cancel_right_pos)
    then show ?thesis by (simp add: rd u41)
  next
    case False
    with j11 have j12: "12 \<le> j" by simp
    have pj: "(2::real) ^ j = 2 ^ 52 * u"
      by (simp add: u_def power_int_diff)
    have "(2::real) ^ j = of_int (2 ^ j)" by simp
    also have "\<dots> \<le> of_int n" using lo by (simp only: of_int_le_iff)
    also have "\<dots> \<le> x" by (rule nx)
    finally have "(2::real) ^ j \<le> x" .
    then have "2 ^ 52 \<le> x / u" using upos by (simp add: pj pos_le_divide_eq)
    then have "of_int (2 ^ 52) \<le> x / u" by simp
    then have "2 ^ 52 \<le> round_half_even (x / u)" by (rule round_half_even_ge)
    then have "real_of_int (2 ^ 52) \<le> of_int (round_half_even (x / u))"
      by (simp only: of_int_le_iff)
    then have "real_of_int (2 ^ 52) * u \<le> of_int (round_half_even (x / u)) * u"
      using upos by (simp only: mult_le_cancel_right_pos)
    then have "(2::real) ^ j \<le> round_double x" by (simp add: rd pj)
    moreover have "(2::real) ^ 12 \<le> 2 ^ j" using j12 by (intro power_increasing) simp_all
    ultimately show ?thesis by simp
  qed
qed

lemma float_sub_int:
  assumes "\<bar>a - b\<bar> < 2 ^ 53"
  shows "float_sub (of_int a) (of_int b) = of_int (a - b)"
  using round_double_of_int [OF assms] by (simp add: float_sub_def)

text \<open>
  Rounding never takes a difference of 3600 or more below 3600, so an entry that is
  3600 seconds old in exact arithmetic is never fresh.
\<close>

lemma float_sub_ge_3600: "3600 \<le> x - y \<Longrightarrow> 3600 \<le> float_sub x y"
  by (simp add: float_sub_def round_double_ge_3600)

lemma demo_ages:
  "float_sub 5000 2000 = 3000" "float_sub 5600 2000 = 3600" "float_sub 1000 900 = 100"
  "float_sub 1000 1000 = 0"
  using float_sub_int [of 5000 2000] float_sub_int [of 5600 2000] float_sub_int [of 1000 900]
    float_sub_int [of 1000 1000]
  by simp_all

text \<open>
  A difference that is below 3600 in exact arithmetic can round to 3600: the floats
  written \<open>3600.1\<close> and \<open>0.1\<close> are a little less and a little more than these decimals.
\<close>

lemma demo_age_rounds_up:
  "7916703622312755 / 2 ^ 41 - 3602879701896397 / 2 ^ 55 < (3600::real)"
  "float_sub (7916703622312755 / 2 ^ 41) (3602879701896397 / 2 ^ 55) = 3600"
  by (simp_all add: float_sub_def round_double_def floor_log2_def ilog2.simps
      round_half_even_def Let_def power_int_minus_divide)

lemmas demo_run_simps = demo_env_def demo_world_def cache_key_def espn_url_def fmt_str_def
  fmt_int_def str_int_def str_nat.simps CACHE_EXPIRATION_def fresh_def truthy_int_def
  get_cached_team_data_def fetch_team_data_def Let_def demo_ages

section \<open>The cache\<close>

lemma get_cached_hit:
  assumes "cache st (cache_key league_slug team_slug) = Some (ts, data)"
    and "float_sub (clock e (ticks st)) ts < CACHE_EXPIRATION"
  shows "get_cached_team_data e st sport_slug league_slug team_slug team_id =
           (Inr data, st\<lparr>ticks := Suc (ticks st)\<rparr>)"
  using assms by (simp add: get_cached_team_data_def Let_def)

lemma get_cached_miss:
  assumes "\<not> fresh e st (cache_key league_slug team_slug)"
  shows "get_cached_team_data e st sport_slug league_slug team_slug team_id =
           (case upstream e (length (requests st)) (espn_url sport_slug league_slug team_id) of
              Inl err \<Rightarrow>
                (Inl (HTTPException 500 (''Error fetching ESPN data: '' @ err)),
                 st\<lparr>ticks := Suc (ticks st),
                    requests := requests st @ [espn_url sport_slug league_slug team_id]\<rparr>)
            | Inr body \<Rightarrow>
                (Inr body,
                 st\<lparr>ticks := Suc (ticks st),
                    requests := requests st @ [espn_url sport_slug league_slug team_id],
                    cache := (cache st)(cache_key league_slug team_slug
                                \<mapsto> (clock e (ticks st), body))\<rparr>))"
  using assms
  by (auto simp add: get_cached_team_data_def fetch_team_data_def fresh_def Let_def
      split: option.splits sum.splits prod.splits)

lemma stale_not_fresh:
  assumes "cache st key = Some (ts, data)" and "3600 \<le> clock e (ticks st) - ts"
  shows "\<not> fresh e st key"
  using assms float_sub_ge_3600 [of "clock e (ticks st)" ts]
  by (simp add: fresh_def CACHE_EXPIRATION_def)

lemma demo_key: "cache_key (Some ''eng.1'') (Some ''ars'') = ''eng.1:ars''"
  by (simp add: cache_key_def fmt_str_def)

lemma demo_url:
  "espn_url ''soccer'' (Some ''eng.1'') (Some 359) =
     ''https://site.api.espn.com/apis/site/v2/sports/soccer/eng.1/teams/359''"
  by (simp add: espn_url_def fmt_str_def fmt_int_def str_int_def str_nat.simps)

lemma get_cached_cases:
  "get_cached_team_data e st sport_slug league_slug team_slug team_id =
     (if fresh e st (cache_key league_slug team_slug) then
        (Inr (snd (the (cache st (cache_key league_slug team_slug)))),
         st\<lparr>ticks := Suc (ticks st)\<rparr>)
      else
        (case upstream e (length (requests st)) (espn_url sport_slug league_slug team_id) of
              Inl err \<Rightarrow>
                (Inl (HTTPException 500 (''Error fetching ESPN data: '' @ err)),
                 st\<lparr>ticks := Suc (ticks st),
                    requests := requests st @ [espn_url sport_slug league_slug team_id]\<rparr>)
            | Inr body \<Rightarrow>
                (Inr body,
                 st\<lparr>ticks := Suc (ticks st),
                    requests := requests st @ [espn_url sport_slug league_slug team_id],
                    cache := (cache st)(cache_key league_slug team_slug
                                \<mapsto> (clock e (ticks st), body))\<rparr>)))"
proof (cases "fresh e st (cache_key league_slug team_slug)")
  case True
  then obtain ts data where "cache st (cache_key league_slug team_slug) = Some (ts, data)"
    and "float_sub (clock e (ticks st)) ts < CACHE_EXPIRATION"
    by (auto simp add: fresh_def split: option.splits)
  then show ?thesis
    using True by (simp add: get_cached_hit)
next
  case False
  then show ?thesis
    by (simp add: get_cached_miss)
qed



lemma get_cached_requests:
  "requests (snd (get_cached_team_data e st sport_slug league_slug team_slug team_id)) =
     requests st
   \<or> requests (snd (get_cached_team_data e st sport_slug league_slug team_slug team_id)) =
     requests st @ [espn_url sport_slug league_slug team_id]"
  by (simp add: get_cached_cases split: sum.splits)

text \<open>
  C1. The age of an entry is what the code computes, the float \<open>now - ts\<close>. A call of
  \<open>get_cached_team_data\<close> that finds an entry under its key with age below 3600 seconds
  returns the stored payload and requests nothing from upstream, leaving the cache as it
  was. A call that finds no entry, or one of age at least 3600 seconds, makes exactly one
  request, for the URL built from its arguments; when that request succeeds the call
  returns the body and the entry under the key becomes (now, body). In the second case
  whatever the call returns is what upstream answered in this call, so a payload stored
  for 3600 seconds or more, by the computed age or in exact arithmetic, is never served
  from the cache.
\<close>

theorem get_cached_team_data_freshness:
  assumes "get_cached_team_data e st sport_slug league_slug team_slug team_id = (res, st')"
  shows "(\<forall>ts data. cache st (cache_key league_slug team_slug) = Some (ts, data)
              \<and> float_sub (clock e (ticks st)) ts < 3600
            \<longrightarrow> res = Inr data \<and> requests st' = requests st \<and> cache st' = cache st)
       \<and> (cache st (cache_key league_slug team_slug) = None
            \<or> (\<exists>ts data. cache st (cache_key league_slug team_slug) = Some (ts, data)
                  \<and> (3600 \<le> float_sub (clock e (ticks st)) ts
                       \<or> 3600 \<le> clock e (ticks st) - ts))
          \<longrightarrow> requests st' = requests st @ [espn_url sport_slug league_slug team_id]
            \<and> (\<forall>body. upstream e (length (requests st))
                         (espn_url sport_slug league_slug team_id) = Inr body
                  \<longrightarrow> res = Inr body
                    \<and> cache st' = (cache st)(cache_key league_slug team_slug
                                      \<mapsto> (clock e (ticks st), body)))
            \<and> (\<forall>p. res = Inr p
                  \<longrightarrow> upstream e (length (requests st))
                        (espn_url sport_slug league_slug team_id) = Inr p))"
proof (intro conjI allI impI)
  fix ts data
  assume "cache st (cache_key league_slug team_slug) = Some (ts, data)
            \<and> float_sub (clock e (ticks st)) ts < 3600"
  then have a: "cache st (cache_key league_slug team_slug) = Some (ts, data)"
    and b: "float_sub (clock e (ticks st)) ts < CACHE_EXPIRATION"
    by (simp_all add: CACHE_EXPIRATION_def)
  have "get_cached_team_data e st sport_slug league_slug team_slug team_id =
               (Inr data, st\<lparr>ticks := Suc (ticks st)\<rparr>)"
    by (rule get_cached_hit [OF a b])
  with assms show "res = Inr data" "requests st' = requests st" "cache st' = cache st"
    by auto
next
  assume stale: "cache st (cache_key league_slug team_slug) = None
            \<or> (\<exists>ts data. cache st (cache_key league_slug team_slug) = Some (ts, data)
                  \<and> (3600 \<le> float_sub (clock e (ticks st)) ts
                       \<or> 3600 \<le> clock e (ticks st) - ts))"
  have nf: "\<not> fresh e st (cache_key league_slug team_slug)"
  proof (cases "cache st (cache_key league_slug team_slug)")
    case None
    then show ?thesis by (simp add: fresh_def)
  next
    case (Some entry)
    obtain ts data where entry: "entry = (ts, data)" by (cases entry)
    from stale Some entry
    have "3600 \<le> float_sub (clock e (ticks st)) ts \<or> 3600 \<le> clock e (ticks st) - ts"
      by simp
    then show ?thesis
    proof
      assume "3600 \<le> float_sub (clock e (ticks st)) ts"
      then show ?thesis by (simp add: fresh_def Some entry CACHE_EXPIRATION_def)
    next
      assume "3600 \<le> clock e (ticks st) - ts"
      with Some entry show ?thesis by (simp add: stale_not_fresh)
    qed
  qed
  note m = get_cached_miss [OF nf, of sport_slug team_id, unfolded assms]
  from m show "requests st' = requests st @ [espn_url sport_slug league_slug team_id]"
    by (auto split: sum.splits)
  {
    fix body
    assume "upstream e (length (requests st)) (espn_url sport_slug league_slug team_id) = Inr body"
    with m show "res = Inr body"
      "cache st' = (cache st)(cache_key league_slug team_slug \<mapsto> (clock e (ticks st), body))"
      by auto
  }
  {
    fix p
    assume "res = Inr p"
    with m show "upstream e (length (requests st)) (espn_url sport_slug league_slug team_id) = Inr p"
      by (auto split: sum.splits)
  }
qed

text \<open>
  An entry stored at time 2000 is served at time 5000 without a request, and replaced by
  the body of exactly one request at time 5600. An entry stored at the float \<open>0.1\<close> is
  replaced at the float \<open>3600.1\<close>, where the computed age is 3600.
\<close>

theorem get_cached_team_data_freshness_witness:
  "fst (get_cached_team_data (demo_env 5000 echo)
          (demo_world [(''eng.1:ars'', 2000, JStr ''old'')])
          ''soccer'' (Some ''eng.1'') (Some ''ars'') (Some 359)) = Inr (JStr ''old'')
   \<and> requests (snd (get_cached_team_data (demo_env 5000 echo)
          (demo_world [(''eng.1:ars'', 2000, JStr ''old'')])
          ''soccer'' (Some ''eng.1'') (Some ''ars'') (Some 359))) = []
   \<and> fst (get_cached_team_data (demo_env 5600 echo)
          (demo_world [(''eng.1:ars'', 2000, JStr ''old'')])
          ''soccer'' (Some ''eng.1'') (Some ''ars'') (Some 359)) =
       Inr (JStr ''https://site.api.espn.com/apis/site/v2/sports/soccer/eng.1/teams/359'')
   \<and> requests (snd (get_cached_team_data (demo_env 5600 echo)
          (demo_world [(''eng.1:ars'', 2000, JStr ''old'')])
          ''soccer'' (Some ''eng.1'') (Some ''ars'') (Some 359))) =
       [''https://site.api.espn.com/apis/site/v2/sports/soccer/eng.1/teams/359'']
   \<and> requests (snd (get_cached_team_data (demo_env (7916703622312755 / 2 ^ 41) echo)
          (demo_world [(''eng.1:ars'', 3602879701896397 / 2 ^ 55, JStr ''old'')])
          ''soccer'' (Some ''eng.1'') (Some ''ars'') (Some 359))) =
       [''https://site.api.espn.com/apis/site/v2/sports/soccer/eng.1/teams/359'']"
proof -
  let ?up = "echo"
  let ?st = "demo_world [(''eng.1:ars'', 2000, JStr ''old'')]"
  let ?early = "demo_world [(''eng.1:ars'', 3602879701896397 / 2 ^ 55, JStr ''old'')]"
  let ?k = "cache_key (Some ''eng.1'') (Some ''ars'')"
  let ?u = "espn_url ''soccer'' (Some ''eng.1'') (Some 359)"
  let ?hit = "get_cached_team_data (demo_env 5000 ?up) ?st ''soccer'' (Some ''eng.1'')
                (Some ''ars'') (Some 359)"
  let ?miss = "get_cached_team_data (demo_env 5600 ?up) ?st ''soccer'' (Some ''eng.1'')
                (Some ''ars'') (Some 359)"
  let ?edge = "get_cached_team_data (demo_env (7916703622312755 / 2 ^ 41) ?up) ?early ''soccer''
                (Some ''eng.1'') (Some ''ars'') (Some 359)"
  have rq: "requests ?st = []" "requests ?early = []"
    by (simp_all add: demo_world_def)
  have "cache ?st ?k = Some (2000, JStr ''old'')"
    by (simp add: demo_world_def demo_key)
  moreover have "float_sub (clock (demo_env 5000 ?up) (ticks ?st)) 2000 < 3600"
    by (simp add: demo_env_def demo_ages)
  ultimately have young: "cache ?st ?k = Some (2000, JStr ''old'')
                 \<and> float_sub (clock (demo_env 5000 ?up) (ticks ?st)) 2000 < 3600"
    by (rule conjI)
  have old: "cache ?st ?k = None
               \<or> (\<exists>ts data. cache ?st ?k = Some (ts, data)
                     \<and> (3600 \<le> float_sub (clock (demo_env 5600 ?up) (ticks ?st)) ts
                          \<or> 3600 \<le> clock (demo_env 5600 ?up) (ticks ?st) - ts))"
    by (simp add: demo_env_def demo_world_def demo_key demo_ages)
  have "cache ?early ?k = Some (3602879701896397 / 2 ^ 55, JStr ''old'')"
    by (simp add: demo_world_def demo_key)
  moreover have now: "clock (demo_env (7916703622312755 / 2 ^ 41) ?up) (ticks ?early) =
      7916703622312755 / 2 ^ 41"
    by (simp add: demo_env_def)
  have "3600 \<le> float_sub (clock (demo_env (7916703622312755 / 2 ^ 41) ?up) (ticks ?early))
                    (3602879701896397 / 2 ^ 55)"
    by (simp only: now demo_age_rounds_up(2) order_refl)
  ultimately have edge: "cache ?early ?k = None
               \<or> (\<exists>ts data. cache ?early ?k = Some (ts, data)
                     \<and> (3600 \<le> float_sub
                                   (clock (demo_env (7916703622312755 / 2 ^ 41) ?up) (ticks ?early)) ts
                          \<or> 3600 \<le> clock (demo_env (7916703622312755 / 2 ^ 41) ?up) (ticks ?early)
                                      - ts))"
    by blast
  have answer: "upstream (demo_env 5600 ?up) (length (requests ?st)) ?u = Inr (JStr ?u)"
    by (simp add: demo_env_def echo_def)
  have "fst ?hit = Inr (JStr ''old'') \<and> requests (snd ?hit) = requests ?st"
    using get_cached_team_data_freshness [OF prod.collapse [symmetric],
        where e = "demo_env 5000 ?up" and st = ?st and sport_slug = "''soccer''"
          and league_slug = "Some ''eng.1''" and team_slug = "Some ''ars''"
          and team_id = "Some 359"] young
    by blast
  then have h1: "fst ?hit = Inr (JStr ''old'')" and h2: "requests (snd ?hit) = []"
    by (simp_all only: rq)
  have "fst ?miss = Inr (JStr ?u) \<and> requests (snd ?miss) = requests ?st @ [?u]"
    using get_cached_team_data_freshness [OF prod.collapse [symmetric],
        where e = "demo_env 5600 ?up" and st = ?st and sport_slug = "''soccer''"
          and league_slug = "Some ''eng.1''" and team_slug = "Some ''ars''"
          and team_id = "Some 359"] old answer
    by blast
  then have h3: "fst ?miss =
        Inr (JStr ''https://site.api.espn.com/apis/site/v2/sports/soccer/eng.1/teams/359'')"
    and h4: "requests (snd ?miss) =
        [''https://site.api.espn.com/apis/site/v2/sports/soccer/eng.1/teams/359'']"
    by (simp_all only: rq demo_url append_Nil)
  have "requests (snd ?edge) = requests ?early @ [?u]"
    using get_cached_team_data_freshness [OF prod.collapse [symmetric],
        where e = "demo_env (7916703622312755 / 2 ^ 41) ?up" and st = ?early
          and sport_slug = "''soccer''"
          and league_slug = "Some ''eng.1''" and team_slug = "Some ''ars''"
          and team_id = "Some 359"] edge
    by blast
  then have h5: "requests (snd ?edge) =
        [''https://site.api.espn.com/apis/site/v2/sports/soccer/eng.1/teams/359'']"
    by (simp only: rq demo_url append_Nil)
  from h1 h2 h3 h4 h5 show ?thesis
    by (intro conjI)
qed

text \<open>
  C2. When the call does go to upstream (no fresh entry under the key) and the request
  fails, the failure reaches the caller as an \<open>HTTPException\<close> of status 500 and the cache is
  the one the call started with: nothing is evicted, replaced or stored, and the stale
  entry is not returned.
\<close>

theorem fetch_failure_keeps_cache:
  assumes "\<not> fresh e st (cache_key league_slug team_slug)"
    and "upstream e (length (requests st)) (espn_url sport_slug league_slug team_id) = Inl err"
  shows "fst (get_cached_team_data e st sport_slug league_slug team_slug team_id) =
           Inl (HTTPException 500 (''Error fetching ESPN data: '' @ err))
       \<and> cache (snd (get_cached_team_data e st sport_slug league_slug team_slug team_id)) =
           cache st"
  using assms by (simp add: get_cached_miss)

theorem fetch_failure_keeps_cache_witness:
  "fst (get_cached_team_data (demo_env 5600 down)
          (demo_world [(''eng.1:ars'', 2000, JStr ''old'')])
          ''soccer'' (Some ''eng.1'') (Some ''ars'') (Some 359)) =
       Inl (HTTPException 500 ''Error fetching ESPN data: 503 Server Error'')
   \<and> cache (snd (get_cached_team_data (demo_env 5600 down)
          (demo_world [(''eng.1:ars'', 2000, JStr ''old'')])
          ''soccer'' (Some ''eng.1'') (Some ''ars'') (Some 359))) ''eng.1:ars'' =
       Some (2000, JStr ''old'')"
proof -
  let ?e = "demo_env 5600 down"
  let ?st = "demo_world [(''eng.1:ars'', 2000, JStr ''old'')]"
  have stale: "\<not> fresh ?e ?st (cache_key (Some ''eng.1'') (Some ''ars''))"
    by (simp add: fresh_def demo_env_def demo_world_def demo_key CACHE_EXPIRATION_def demo_ages)
  have fails: "upstream ?e (length (requests ?st))
                 (espn_url ''soccer'' (Some ''eng.1'') (Some 359)) = Inl ''503 Server Error''"
    by (simp add: demo_env_def down_def)
  have kept: "cache ?st ''eng.1:ars'' = Some (2000, JStr ''old'')"
    by (simp add: demo_world_def)
  show ?thesis
    using fetch_failure_keeps_cache [OF stale fails] kept by simp
qed

section \<open>Key derivation\<close>

text \<open>
  C3. The claim: the key is a function of the pair (league_slug, team_slug), and two
  distinct pairs of strings derive distinct keys, so they never share a cache slot. The
  first half holds, \<open>cache_key\<close> being a function of the pair. The second half fails in the
  code: the key joins the two slugs with a colon, so the pairs (\<open>a:b\<close>, \<open>c\<close>) and
  (\<open>a\<close>, \<open>b:c\<close>) both derive \<open>a:b:c\<close>. With one team configured under each pair, a
  request for the second team within the hour is answered with the payload fetched for
  the first, and no second request reaches upstream.
\<close>

theorem cache_key_collision:
  "(''a:b'', ''c'') \<noteq> (''a'', ''b:c'')
 \<and> cache_key (Some ''a:b'') (Some ''c'') = cache_key (Some ''a'') (Some ''b:c'')
 \<and> (case api_team (demo_env 1000 echo) colon_config (demo_world []) ''c'' ''a:b'' of
       (first, st1) \<Rightarrow>
         (case api_team (demo_env 1000 echo) colon_config st1 ''b:c'' ''a'' of
            (second, st2) \<Rightarrow>
              first = Inr (JStr ''https://site.api.espn.com/apis/site/v2/sports/soccer/a:b/teams/1'')
              \<and> second = first
              \<and> requests st2 =
                  [''https://site.api.espn.com/apis/site/v2/sports/soccer/a:b/teams/1'']))"
  by (simp add: api_team_def colon_config_def demo_team_def find_sport_slug_def py_or_def
      truthy_str_def demo_run_simps echo_def)

text \<open>
  Distinct pairs do derive distinct keys as long as the league slugs contain no colon.
\<close>

lemma split_at_colon:
  assumes "c \<notin> set l1" and "c \<notin> set l2" and "l1 @ c # t1 = l2 @ c # t2"
  shows "l1 = l2 \<and> t1 = t2"
  using assms
proof (induction l1 arbitrary: l2)
  case Nil
  then show ?case by (cases l2) auto
next
  case (Cons x l1)
  then show ?case by (cases l2) auto
qed

lemma cache_key_inj_without_colon:
  assumes "CHR '':'' \<notin> set l1" and "CHR '':'' \<notin> set l2"
    and "cache_key (Some l1) (Some t1) = cache_key (Some l2) (Some t2)"
  shows "l1 = l2 \<and> t1 = t2"
  using assms split_at_colon [of "CHR '':''" l1 l2 t1 t2]
  by (simp add: cache_key_def fmt_str_def)

section \<open>Lookup in the configuration\<close>

lemma truthy_int_iff: "truthy_int x \<longleftrightarrow> \<not> (x = None \<or> x = Some 0)"
  by (cases x) (simp_all add: truthy_int_def)

lemma truthy_str_iff: "truthy_str x \<longleftrightarrow> \<not> (x = None \<or> x = Some [])"
  by (cases x) (simp_all add: truthy_str_def)

lemma find_sport_slug_loop_find:
  "find_sport_slug_loop ls league_slug =
     (case find (\<lambda>l. league l = league_slug) ls of
        None \<Rightarrow> None
      | Some l \<Rightarrow> py_or (sport_path l) (sport l))"
  by (induction ls) simp_all

lemma find_sport_slug_teams [simp]:
  "find_sport_slug (cfg\<lparr>teams := ts\<rparr>) league_slug = find_sport_slug cfg league_slug"
  by (simp add: find_sport_slug_def)

lemma find_first:
  assumes "\<forall>x \<in> set pre. \<not> P x" and "P x"
  shows "find P (pre @ x # post) = Some x"
  using assms by (induction pre) auto

text \<open>
  Each endpoint loop returns or raises at the first team that passes its test, so it is
  a \<open>find\<close> followed by the body of the loop.
\<close>

lemma api_team_loop_find:
  "api_team_loop e cfg st team_slug league_slug ts =
     (case find (\<lambda>(k, t). espn_slug t = Some team_slug \<and> team_league t = Some league_slug) ts of
        None \<Rightarrow> (Inl (HTTPException 404 ''Team or league not found in config''), st)
      | Some (k, t) \<Rightarrow>
          if \<not> truthy_int (espn_id t) then
            (Inl (HTTPException 404 ''Team ESPN ID not found in config''), st)
          else (case find_sport_slug cfg (Some league_slug) of
              None \<Rightarrow> (Inl (HTTPException 404 ''Sport slug not found in config''), st)
            | Some sport_slug \<Rightarrow>
                if sport_slug = [] then
                  (Inl (HTTPException 404 ''Sport slug not found in config''), st)
                else get_cached_team_data e st sport_slug (Some league_slug) (Some team_slug)
                       (espn_id t)))"
proof (induction ts)
  case Nil
  show ?case by simp
next
  case (Cons kt ts)
  obtain k t where kt: "kt = (k, t)" by (cases kt)
  show ?case
  proof (cases "espn_slug t = Some team_slug \<and> team_league t = Some league_slug")
    case True
    have "find (\<lambda>(k, t). espn_slug t = Some team_slug \<and> team_league t = Some league_slug) (kt # ts) = Some (k, t)"
      using True by (simp add: kt)
    then show ?thesis
      using True by (simp only: kt api_team_loop.simps option.case prod.case if_True simp_thms)
  next
    case False
    have "find (\<lambda>(k, t). espn_slug t = Some team_slug \<and> team_league t = Some league_slug) (kt # ts) =
            find (\<lambda>(k, t). espn_slug t = Some team_slug \<and> team_league t = Some league_slug) ts"
      using False by (auto simp add: kt)
    then show ?thesis
      using False Cons.IH by (simp only: kt api_team_loop.simps if_False)
  qed
qed

lemma api_team_no_league_loop_find:
  "api_team_no_league_loop e cfg st team_slug ts =
     (case find (\<lambda>(k, t). espn_slug t = Some team_slug) ts of
        None \<Rightarrow> (Inl (HTTPException 404 ''Team not found in config''), st)
      | Some (k, t) \<Rightarrow>
          if \<not> truthy_int (espn_id t) \<or> \<not> truthy_str (team_league t) then
            (Inl (HTTPException 404 ''Team ESPN ID or league not found in config''), st)
          else (case find_sport_slug cfg (team_league t) of
              None \<Rightarrow> (Inl (HTTPException 404 ''Sport slug not found in config''), st)
            | Some sport_slug \<Rightarrow>
                if sport_slug = [] then
                  (Inl (HTTPException 404 ''Sport slug not found in config''), st)
                else get_cached_team_data e st sport_slug (team_league t) (Some team_slug)
                       (espn_id t)))"
proof (induction ts)
  case Nil
  show ?case by simp
next
  case (Cons kt ts)
  obtain k t where kt: "kt = (k, t)" by (cases kt)
  show ?case
  proof (cases "espn_slug t = Some team_slug")
    case True
    have "find (\<lambda>(k, t). espn_slug t = Some team_slug) (kt # ts) = Some (k, t)"
      using True by (simp add: kt)
    then show ?thesis
      using True by (simp only: kt api_team_no_league_loop.simps option.case prod.case if_True simp_thms)
  next
    case False
    have "find (\<lambda>(k, t). espn_slug t = Some team_slug) (kt # ts) =
            find (\<lambda>(k, t). espn_slug t = Some team_slug) ts"
      using False by (auto simp add: kt)
    then show ?thesis
      using False Cons.IH by (simp only: kt api_team_no_league_loop.simps if_False)
  qed
qed

lemma api_fixtures_loop_find:
  "api_fixtures_loop e cfg st team_slug league_slug ts =
     (case find (\<lambda>(k, t). espn_slug t = Some team_slug \<and> team_league t = Some league_slug) ts of
        None \<Rightarrow> (Inl (HTTPException 404 ''Team or league not found in config''), st)
      | Some (k, t) \<Rightarrow>
          if \<not> truthy_int (espn_id t) then
            (Inl (HTTPException 404 ''Team ESPN ID not found in config''), st)
          else (case find_sport_slug cfg (Some league_slug) of
              None \<Rightarrow> (Inl (HTTPException 404 ''Sport slug not found in config''), st)
            | Some sport_slug \<Rightarrow>
                if sport_slug = [] then
                  (Inl (HTTPException 404 ''Sport slug not found in config''), st)
                else
                  (case get_cached_team_data e st sport_slug (Some league_slug)
                          (Some team_slug) (espn_id t) of
                     (Inl ex, st') \<Rightarrow> (Inl ex, st')
                   | (Inr data, st') \<Rightarrow>
                       (case fixtures_of data of
                          Inl ex \<Rightarrow> (Inl ex, st')
                        | Inr fixtures \<Rightarrow> (Inr (JObj [(''fixtures'', fixtures)]), st')))))"
proof (induction ts)
  case Nil
  show ?case by simp
next
  case (Cons kt ts)
  obtain k t where kt: "kt = (k, t)" by (cases kt)
  show ?case
  proof (cases "espn_slug t = Some team_slug \<and> team_league t = Some league_slug")
    case True
    have "find (\<lambda>(k, t). espn_slug t = Some team_slug \<and> team_league t = Some league_slug) (kt # ts) = Some (k, t)"
      using True by (simp add: kt)
    then show ?thesis
      using True by (simp only: kt api_fixtures_loop.simps option.case prod.case if_True simp_thms)
  next
    case False
    have "find (\<lambda>(k, t). espn_slug t = Some team_slug \<and> team_league t = Some league_slug) (kt # ts) =
            find (\<lambda>(k, t). espn_slug t = Some team_slug \<and> team_league t = Some league_slug) ts"
      using False by (auto simp add: kt)
    then show ?thesis
      using False Cons.IH by (simp only: kt api_fixtures_loop.simps if_False)
  qed
qed

text \<open>
  The endpoints follow the resolver of the specification and then go to the cache.
\<close>

lemma api_team_resolve:
  "api_team e cfg st team_slug league_slug =
     (case resolve_spec cfg team_slug league_slug of
        Inl d \<Rightarrow> (Inl (HTTPException 404 d), st)
      | Inr (s, i) \<Rightarrow> get_cached_team_data e st s (Some league_slug) (Some team_slug) i)"
  by (simp add: api_team_def api_team_loop_find resolve_spec_def truthy_int_iff
      split: option.splits prod.splits)

lemma api_team_no_league_resolve:
  "api_team_no_league e cfg st team_slug =
     (case resolve_no_league_spec cfg team_slug of
        Inl d \<Rightarrow> (Inl (HTTPException 404 d), st)
      | Inr (s, l, i) \<Rightarrow> get_cached_team_data e st s l (Some team_slug) i)"
  by (simp add: api_team_no_league_def api_team_no_league_loop_find resolve_no_league_spec_def
      truthy_int_iff truthy_str_iff split: option.splits prod.splits)

lemma api_fixtures_resolve:
  "api_fixtures e cfg st team_slug league_slug =
     (case resolve_spec cfg team_slug league_slug of
        Inl d \<Rightarrow> (Inl (HTTPException 404 d), st)
      | Inr (s, i) \<Rightarrow>
          (case get_cached_team_data e st s (Some league_slug) (Some team_slug) i of
             (Inl ex, st') \<Rightarrow> (Inl ex, st')
           | (Inr data, st') \<Rightarrow>
               (case fixtures_of data of
                  Inl ex \<Rightarrow> (Inl ex, st')
                | Inr fixtures \<Rightarrow> (Inr (JObj [(''fixtures'', fixtures)]), st'))))"
  by (simp add: api_fixtures_def api_fixtures_loop_find resolve_spec_def truthy_int_iff
      split: option.splits prod.splits)



lemma fixtures_of_readable:
  assumes "team_readable data"
  shows "fixtures_of data =
           Inr (case team_next_event data of None \<Rightarrow> JArr [] | Some v \<Rightarrow> v)"
proof -
  from assms obtain kvs where d: "data = JObj kvs"
    by (cases data) (simp_all add: team_readable_def is_object_def)
  show ?thesis
  proof (cases "map_of kvs ''team''")
    case None
    then show ?thesis
      by (simp add: d fixtures_of_def team_next_event_def json_member_def)
  next
    case (Some team)
    with assms d obtain tkvs where t: "team = JObj tkvs"
      by (cases team) (simp_all add: team_readable_def is_object_def json_member_def)
    show ?thesis
      using Some by (simp add: d t fixtures_of_def team_next_event_def json_member_def)
  qed
qed

lemma fixtures_of_unreadable:
  assumes "\<not> team_readable data"
  shows "fixtures_of data = Inl AttributeError"
proof (cases data)
  case (JObj kvs)
  show ?thesis
  proof (cases "map_of kvs ''team''")
    case None
    with assms JObj show ?thesis
      by (simp add: team_readable_def is_object_def json_member_def)
  next
    case (Some team)
    with assms JObj have "\<not> is_object team"
      by (simp add: team_readable_def is_object_def json_member_def)
    then have "dict_get team ''nextEvent'' (JArr []) = Inl AttributeError"
      by (cases team) (simp_all add: is_object_def)
    then show ?thesis
      using Some by (simp add: JObj fixtures_of_def)
  qed
qed (simp_all add: fixtures_of_def)

lemma fixtures_of_attribute_error_iff:
  "fixtures_of data = Inl AttributeError \<longleftrightarrow> \<not> team_readable data"
  using fixtures_of_unreadable [of data] fixtures_of_readable [of data] by auto

text \<open>
  C7. \<open>find_sport_slug\<close> looks at the first league whose \<open>league\<close> field equals its
  argument. When no league matches the result is \<open>None\<close>. Otherwise the result is that
  league's \<open>sport_path\<close> when it is present, and the league's \<open>sport\<close> field when
  \<open>sport_path\<close> is absent; so a league with only a \<open>sport\<close> field resolves to it, and a
  league with neither yields no result. Present is meant as the code and its comment
  (\<open>Use sport_path if present, else fallback to sport\<close>) mean it, by the truth value of
  the field: an empty string counts as absent, for \<open>sport_path\<close> in \<open>x or y\<close> as for the
  result in \<open>if not sport_slug\<close>. When a request finds its team with a usable id (and,
  without a league in the request, a usable league) and the sport slug comes out absent,
  the endpoint raises 404 with the detail \<open>Sport slug not found in config\<close> and leaves the
  state as it was.
\<close>

theorem find_sport_slug_fallback:
  "(find (\<lambda>l. league l = league_slug) (leagues cfg) = None
      \<longrightarrow> find_sport_slug cfg league_slug = None)
 \<and> (\<forall>l. find (\<lambda>l. league l = league_slug) (leagues cfg) = Some l \<longrightarrow>
        (\<forall>p. sport_path l = Some p \<and> p \<noteq> [] \<longrightarrow> find_sport_slug cfg league_slug = Some p)
      \<and> (sport_path l = None \<or> sport_path l = Some []
           \<longrightarrow> find_sport_slug cfg league_slug = sport l))
 \<and> (\<forall>k t. find (\<lambda>(k, t). espn_slug t = Some team_slug \<and> team_league t = Some lg)
            (teams cfg) = Some (k, t)
          \<and> espn_id t \<noteq> None \<and> espn_id t \<noteq> Some 0
          \<and> (find_sport_slug cfg (Some lg) = None \<or> find_sport_slug cfg (Some lg) = Some [])
      \<longrightarrow> api_team e cfg st team_slug lg =
            (Inl (HTTPException 404 ''Sport slug not found in config''), st)
        \<and> api_fixtures e cfg st team_slug lg =
            (Inl (HTTPException 404 ''Sport slug not found in config''), st))
 \<and> (\<forall>k t. find (\<lambda>(k, t). espn_slug t = Some team_slug) (teams cfg) = Some (k, t)
          \<and> espn_id t \<noteq> None \<and> espn_id t \<noteq> Some 0
          \<and> team_league t \<noteq> None \<and> team_league t \<noteq> Some []
          \<and> (find_sport_slug cfg (team_league t) = None
               \<or> find_sport_slug cfg (team_league t) = Some [])
      \<longrightarrow> api_team_no_league e cfg st team_slug =
            (Inl (HTTPException 404 ''Sport slug not found in config''), st))"
proof (intro conjI allI impI)
  assume "find (\<lambda>l. league l = league_slug) (leagues cfg) = None"
  then show "find_sport_slug cfg league_slug = None"
    by (simp add: find_sport_slug_def find_sport_slug_loop_find)
next
  fix l p
  assume "find (\<lambda>l. league l = league_slug) (leagues cfg) = Some l"
    and "sport_path l = Some p \<and> p \<noteq> []"
  then show "find_sport_slug cfg league_slug = Some p"
    by (simp add: find_sport_slug_def find_sport_slug_loop_find py_or_def truthy_str_def)
next
  fix l
  assume "find (\<lambda>l. league l = league_slug) (leagues cfg) = Some l"
    and "sport_path l = None \<or> sport_path l = Some []"
  then show "find_sport_slug cfg league_slug = sport l"
    by (auto simp add: find_sport_slug_def find_sport_slug_loop_find py_or_def truthy_str_def)
next
  fix k t
  assume a: "find (\<lambda>(k, t). espn_slug t = Some team_slug \<and> team_league t = Some lg)
            (teams cfg) = Some (k, t)
          \<and> espn_id t \<noteq> None \<and> espn_id t \<noteq> Some 0
          \<and> (find_sport_slug cfg (Some lg) = None \<or> find_sport_slug cfg (Some lg) = Some [])"
  then have "resolve_spec cfg team_slug lg = Inl ''Sport slug not found in config''"
    by (auto simp add: resolve_spec_def)
  then show "api_team e cfg st team_slug lg =
            (Inl (HTTPException 404 ''Sport slug not found in config''), st)"
    and "api_fixtures e cfg st team_slug lg =
            (Inl (HTTPException 404 ''Sport slug not found in config''), st)"
    by (simp_all add: api_team_resolve api_fixtures_resolve)
next
  fix k t
  assume a: "find (\<lambda>(k, t). espn_slug t = Some team_slug) (teams cfg) = Some (k, t)
          \<and> espn_id t \<noteq> None \<and> espn_id t \<noteq> Some 0
          \<and> team_league t \<noteq> None \<and> team_league t \<noteq> Some []
          \<and> (find_sport_slug cfg (team_league t) = None
               \<or> find_sport_slug cfg (team_league t) = Some [])"
  then have "resolve_no_league_spec cfg team_slug = Inl ''Sport slug not found in config''"
    by (auto simp add: resolve_no_league_spec_def)
  then show "api_team_no_league e cfg st team_slug =
            (Inl (HTTPException 404 ''Sport slug not found in config''), st)"
    by (simp add: api_team_no_league_resolve)
qed

theorem find_sport_slug_fallback_witness:
  "find_sport_slug (demo_config []) (Some ''nba'') = Some ''basketball''
 \<and> find_sport_slug (demo_config []) (Some ''eng.1'') = Some ''soccer''
 \<and> find_sport_slug (demo_config []) (Some ''misc'') = Some ''soccer''
 \<and> find_sport_slug (demo_config []) (Some ''mlb'') = None
 \<and> api_team (demo_env 1000 echo) (demo_config [demo_team ''Nobody'' ''void'' ''nob'' (Some 5)])
      (demo_world []) ''nob'' ''void'' =
    (Inl (HTTPException 404 ''Sport slug not found in config''), demo_world [])"
proof -
  let ?nba = "\<lparr>league = Some ''nba'', sport_path = Some ''basketball'', sport = Some ''hoops''\<rparr>"
  let ?eng = "\<lparr>league = Some ''eng.1'', sport_path = None, sport = Some ''soccer''\<rparr>"
  let ?misc = "\<lparr>league = Some ''misc'', sport_path = Some [], sport = Some ''soccer''\<rparr>"
  let ?cfg = "demo_config [demo_team ''Nobody'' ''void'' ''nob'' (Some 5)]"
  let ?t = "\<lparr>name = Some ''Nobody'', team_league = Some ''void'', espn_slug = Some ''nob'',
              espn_id = Some 5\<rparr>"
  have f1: "find (\<lambda>l. league l = Some ''nba'') (leagues (demo_config [])) = Some ?nba"
    and f2: "find (\<lambda>l. league l = Some ''eng.1'') (leagues (demo_config [])) = Some ?eng"
    and f3: "find (\<lambda>l. league l = Some ''misc'') (leagues (demo_config [])) = Some ?misc"
    and f4: "find (\<lambda>l. league l = Some ''mlb'') (leagues (demo_config [])) = None"
    by (simp_all add: demo_config_def demo_leagues_def)
  have p1: "sport_path ?nba = Some ''basketball'' \<and> ''basketball'' \<noteq> []"
    and p2: "sport_path ?eng = None \<or> sport_path ?eng = Some []"
    and p3: "sport_path ?misc = None \<or> sport_path ?misc = Some []"
    by simp_all
  have t: "find (\<lambda>(k, t). espn_slug t = Some ''nob'' \<and> team_league t = Some ''void'')
             (teams ?cfg) = Some (''Nobody'', ?t)
           \<and> espn_id ?t \<noteq> None \<and> espn_id ?t \<noteq> Some 0
           \<and> (find_sport_slug ?cfg (Some ''void'') = None
                \<or> find_sport_slug ?cfg (Some ''void'') = Some [])"
    by (simp add: demo_cfg_simps)
  note nomatch = find_sport_slug_fallback [THEN conjunct1, rule_format]
  note matched = find_sport_slug_fallback [THEN conjunct2, THEN conjunct1, rule_format]
  note endpoint = find_sport_slug_fallback [THEN conjunct2, THEN conjunct2, THEN conjunct1,
      rule_format]
  have "find_sport_slug (demo_config []) (Some ''nba'') = Some ''basketball''"
    using matched [OF f1, THEN conjunct1, rule_format, OF p1] .
  moreover have "find_sport_slug (demo_config []) (Some ''eng.1'') = sport ?eng"
    using matched [OF f2, THEN conjunct2, rule_format, OF p2] .
  moreover have "find_sport_slug (demo_config []) (Some ''misc'') = sport ?misc"
    using matched [OF f3, THEN conjunct2, rule_format, OF p3] .
  moreover have "find_sport_slug (demo_config []) (Some ''mlb'') = None"
    using nomatch [OF f4] .
  moreover have "api_team (demo_env 1000 echo) ?cfg (demo_world []) ''nob'' ''void'' =
    (Inl (HTTPException 404 ''Sport slug not found in config''), demo_world [])"
    using endpoint [OF t, THEN conjunct1] .
  ultimately show ?thesis
    by simp
qed

text \<open>
  An empty \<open>sport_path\<close> is passed over like an absent one.
\<close>

lemma find_sport_slug_blank_path:
  "find_sport_slug blank_path_config (Some ''misc'') = Some ''soccer''"
  by (simp add: blank_path_config_def find_sport_slug_def py_or_def truthy_str_def)

text \<open>
  C10. In \<open>api_team\<close> the first team whose slug and league both match decides: when its
  \<open>espn_id\<close> is absent or zero the call raises 404 with the detail
  \<open>Team ESPN ID not found in config\<close> at once, reading no clock and requesting nothing,
  whatever teams follow in the configuration, also one with the same slug and league and
  a valid id.
\<close>

theorem api_team_stops_at_first_match:
  assumes "teams cfg = pre @ (k, t) # post"
    and "\<forall>(k', t') \<in> set pre.
           \<not> (espn_slug t' = Some team_slug \<and> team_league t' = Some league_slug)"
    and "espn_slug t = Some team_slug" and "team_league t = Some league_slug"
    and "espn_id t = None \<or> espn_id t = Some 0"
  shows "api_team e cfg st team_slug league_slug =
           (Inl (HTTPException 404 ''Team ESPN ID not found in config''), st)"
proof -
  have "find (\<lambda>(k, t). espn_slug t = Some team_slug \<and> team_league t = Some league_slug)
          (teams cfg) = Some (k, t)"
    unfolding assms(1) using assms(2-4) by (intro find_first) auto
  then show ?thesis
    using assms(5) by (auto simp add: api_team_def api_team_loop_find truthy_int_iff)
qed

theorem api_team_stops_at_first_match_witness:
  "api_team (demo_env 1000 echo)
     (demo_config [demo_team ''Arsenal (no id)'' ''eng.1'' ''ars'' None,
                   demo_team ''Arsenal'' ''eng.1'' ''ars'' (Some 359)])
     (demo_world []) ''ars'' ''eng.1'' =
   (Inl (HTTPException 404 ''Team ESPN ID not found in config''), demo_world [])"
proof -
  let ?cfg = "demo_config [demo_team ''Arsenal (no id)'' ''eng.1'' ''ars'' None,
                   demo_team ''Arsenal'' ''eng.1'' ''ars'' (Some 359)]"
  let ?t = "\<lparr>name = Some ''Arsenal (no id)'', team_league = Some ''eng.1'',
              espn_slug = Some ''ars'', espn_id = None\<rparr>"
  have a: "teams ?cfg = [] @ (''Arsenal (no id)'', ?t) # [demo_team ''Arsenal'' ''eng.1'' ''ars'' (Some 359)]"
    by (simp add: demo_config_def demo_team_def)
  have b: "\<forall>(k', t') \<in> set [].
           \<not> (espn_slug t' = Some ''ars'' \<and> team_league t' = Some ''eng.1'')"
    by simp
  have c: "espn_slug ?t = Some ''ars''" and d: "team_league ?t = Some ''eng.1''"
    and f: "espn_id ?t = None \<or> espn_id ?t = Some 0"
    by simp_all
  show ?thesis
    by (rule api_team_stops_at_first_match [OF a b c d f])
qed

text \<open>
  C8. \<open>api_team_no_league\<close> acts on the first team, in the order of the configuration,
  whose \<open>espn_slug\<close> is the requested one, whatever follows it (a team of another league
  with the same slug, say). That team alone decides the outcome: 404 when its id or its
  league is unusable or its league has no sport slug, and otherwise the answer of the
  cache for the key of that team's league; when no fresh entry is there, exactly one
  request is made, to the URL of that team's sport, league and id, and its body is what
  the call returns.
\<close>

theorem api_team_no_league_first_match:
  assumes "teams cfg = pre @ (k, t) # post"
    and "\<forall>(k', t') \<in> set pre. espn_slug t' \<noteq> Some team_slug"
    and "espn_slug t = Some team_slug"
  shows "api_team_no_league e cfg st team_slug =
           (if espn_id t = None \<or> espn_id t = Some 0
               \<or> team_league t = None \<or> team_league t = Some []
            then (Inl (HTTPException 404 ''Team ESPN ID or league not found in config''), st)
            else (case find_sport_slug cfg (team_league t) of
                    None \<Rightarrow> (Inl (HTTPException 404 ''Sport slug not found in config''), st)
                  | Some s \<Rightarrow>
                      if s = []
                      then (Inl (HTTPException 404 ''Sport slug not found in config''), st)
                      else get_cached_team_data e st s (team_league t) (Some team_slug)
                             (espn_id t)))
       \<and> (\<forall>s. espn_id t \<noteq> None \<and> espn_id t \<noteq> Some 0
              \<and> team_league t \<noteq> None \<and> team_league t \<noteq> Some []
              \<and> find_sport_slug cfg (team_league t) = Some s \<and> s \<noteq> []
              \<and> \<not> fresh e st (cache_key (team_league t) (Some team_slug))
            \<longrightarrow> requests (snd (api_team_no_league e cfg st team_slug)) =
                  requests st @ [espn_url s (team_league t) (espn_id t)]
              \<and> (\<forall>body. upstream e (length (requests st))
                           (espn_url s (team_league t) (espn_id t)) = Inr body
                    \<longrightarrow> fst (api_team_no_league e cfg st team_slug) = Inr body))"
proof -
  have f: "find (\<lambda>(k, t). espn_slug t = Some team_slug) (teams cfg) = Some (k, t)"
    unfolding assms(1) using assms(2-3) by (intro find_first) auto
  have body: "api_team_no_league e cfg st team_slug =
           (if espn_id t = None \<or> espn_id t = Some 0
               \<or> team_league t = None \<or> team_league t = Some []
            then (Inl (HTTPException 404 ''Team ESPN ID or league not found in config''), st)
            else (case find_sport_slug cfg (team_league t) of
                    None \<Rightarrow> (Inl (HTTPException 404 ''Sport slug not found in config''), st)
                  | Some s \<Rightarrow>
                      if s = []
                      then (Inl (HTTPException 404 ''Sport slug not found in config''), st)
                      else get_cached_team_data e st s (team_league t) (Some team_slug)
                             (espn_id t)))"
    by (simp add: api_team_no_league_def api_team_no_league_loop_find f truthy_int_iff
        truthy_str_iff)
  have fetched: "requests (snd (api_team_no_league e cfg st team_slug)) =
                  requests st @ [espn_url s (team_league t) (espn_id t)]
              \<and> (\<forall>body. upstream e (length (requests st))
                           (espn_url s (team_league t) (espn_id t)) = Inr body
                    \<longrightarrow> fst (api_team_no_league e cfg st team_slug) = Inr body)"
    if h: "espn_id t \<noteq> None \<and> espn_id t \<noteq> Some 0
              \<and> team_league t \<noteq> None \<and> team_league t \<noteq> Some []
              \<and> find_sport_slug cfg (team_league t) = Some s \<and> s \<noteq> []
              \<and> \<not> fresh e st (cache_key (team_league t) (Some team_slug))" for s
  proof -
    from h have nf: "\<not> fresh e st (cache_key (team_league t) (Some team_slug))"
      by simp
    from h have usable: "\<not> (espn_id t = None \<or> espn_id t = Some 0
               \<or> team_league t = None \<or> team_league t = Some [])"
      and sp: "find_sport_slug cfg (team_league t) = Some s" and ne: "s \<noteq> []"
      by simp_all
    have "api_team_no_league e cfg st team_slug =
        get_cached_team_data e st s (team_league t) (Some team_slug) (espn_id t)"
      by (simp only: body usable sp ne if_False option.case)
    then show ?thesis
      by (simp add: get_cached_miss [OF nf] split: sum.splits)
  qed
  from body fetched show ?thesis
    by blast
qed

text \<open>
  Two teams with the slug \<open>ars\<close>, in the leagues \<open>eng.1\<close> and \<open>nba\<close>: whichever comes first
  in the configuration is the one requested from upstream.
\<close>

theorem api_team_no_league_first_match_witness:
  "api_team_no_league (demo_env 1000 echo)
     (demo_config [demo_team ''Lakers'' ''nba'' ''la'' (Some 13),
                   demo_team ''Arsenal'' ''eng.1'' ''ars'' (Some 359),
                   demo_team ''Arsenal Hoops'' ''nba'' ''ars'' (Some 77)])
     (demo_world []) ''ars'' =
   get_cached_team_data (demo_env 1000 echo) (demo_world [])
     ''soccer'' (Some ''eng.1'') (Some ''ars'') (Some 359)
 \<and> fst (api_team_no_league (demo_env 1000 echo)
     (demo_config [demo_team ''Lakers'' ''nba'' ''la'' (Some 13),
                   demo_team ''Arsenal'' ''eng.1'' ''ars'' (Some 359),
                   demo_team ''Arsenal Hoops'' ''nba'' ''ars'' (Some 77)])
     (demo_world []) ''ars'') =
   Inr (JStr ''https://site.api.espn.com/apis/site/v2/sports/soccer/eng.1/teams/359'')
 \<and> fst (api_team_no_league (demo_env 1000 echo)
     (demo_config [demo_team ''Arsenal Hoops'' ''nba'' ''ars'' (Some 77),
                   demo_team ''Arsenal'' ''eng.1'' ''ars'' (Some 359)])
     (demo_world []) ''ars'') =
   Inr (JStr ''https://site.api.espn.com/apis/site/v2/sports/basketball/nba/teams/77'')"
proof -
  let ?e = "demo_env 1000 echo"
  let ?st = "demo_world []"
  let ?cfg = "demo_config [demo_team ''Lakers'' ''nba'' ''la'' (Some 13),
                   demo_team ''Arsenal'' ''eng.1'' ''ars'' (Some 359),
                   demo_team ''Arsenal Hoops'' ''nba'' ''ars'' (Some 77)]"
  let ?cfg' = "demo_config [demo_team ''Arsenal Hoops'' ''nba'' ''ars'' (Some 77),
                   demo_team ''Arsenal'' ''eng.1'' ''ars'' (Some 359)]"
  let ?t = "\<lparr>name = Some ''Arsenal'', team_league = Some ''eng.1'',
              espn_slug = Some ''ars'', espn_id = Some 359\<rparr>"
  let ?h = "\<lparr>name = Some ''Arsenal Hoops'', team_league = Some ''nba'',
              espn_slug = Some ''ars'', espn_id = Some 77\<rparr>"
  let ?u = "espn_url ''soccer'' (team_league ?t) (espn_id ?t)"
  let ?v = "espn_url ''basketball'' (team_league ?h) (espn_id ?h)"
  have a: "teams ?cfg = [demo_team ''Lakers'' ''nba'' ''la'' (Some 13)] @ (''Arsenal'', ?t)
             # [demo_team ''Arsenal Hoops'' ''nba'' ''ars'' (Some 77)]"
    by (simp add: demo_config_def demo_team_def)
  have b: "\<forall>(k', t') \<in> set [demo_team ''Lakers'' ''nba'' ''la'' (Some 13)].
             espn_slug t' \<noteq> Some ''ars''"
    by (simp add: demo_team_def)
  have c: "espn_slug ?t = Some ''ars''"
    by simp
  have a': "teams ?cfg' = [] @ (''Arsenal Hoops'', ?h)
             # [demo_team ''Arsenal'' ''eng.1'' ''ars'' (Some 359)]"
    by (simp add: demo_config_def demo_team_def)
  have b': "\<forall>(k', t') \<in> set []. espn_slug t' \<noteq> Some ''ars''"
    by simp
  have c': "espn_slug ?h = Some ''ars''"
    by simp
  have usable: "espn_id ?t \<noteq> None \<and> espn_id ?t \<noteq> Some 0
              \<and> team_league ?t \<noteq> None \<and> team_league ?t \<noteq> Some []
              \<and> find_sport_slug ?cfg (team_league ?t) = Some ''soccer'' \<and> ''soccer'' \<noteq> []
              \<and> \<not> fresh ?e ?st (cache_key (team_league ?t) (Some ''ars''))"
    by (simp add: demo_cfg_simps fresh_def demo_world_def)
  have usable': "espn_id ?h \<noteq> None \<and> espn_id ?h \<noteq> Some 0
              \<and> team_league ?h \<noteq> None \<and> team_league ?h \<noteq> Some []
              \<and> find_sport_slug ?cfg' (team_league ?h) = Some ''basketball''
              \<and> ''basketball'' \<noteq> []
              \<and> \<not> fresh ?e ?st (cache_key (team_league ?h) (Some ''ars''))"
    by (simp add: demo_cfg_simps fresh_def demo_world_def)
  have up: "upstream ?e (length (requests ?st)) ?u = Inr (JStr ?u)"
    and up': "upstream ?e (length (requests ?st)) ?v = Inr (JStr ?v)"
    by (simp_all add: demo_env_def echo_def)
  have urls: "?u = ''https://site.api.espn.com/apis/site/v2/sports/soccer/eng.1/teams/359''"
    "?v = ''https://site.api.espn.com/apis/site/v2/sports/basketball/nba/teams/77''"
    by (simp_all add: espn_url_def fmt_str_def fmt_int_def str_int_def str_nat.simps)
  note first = api_team_no_league_first_match [OF a b c, of ?e ?st]
  note first' = api_team_no_league_first_match [OF a' b' c', of ?e ?st]
  have "api_team_no_league ?e ?cfg ?st ''ars'' =
          get_cached_team_data ?e ?st ''soccer'' (Some ''eng.1'') (Some ''ars'') (Some 359)"
    using first [THEN conjunct1] usable by simp
  moreover have "fst (api_team_no_league ?e ?cfg ?st ''ars'') = Inr (JStr ?u)"
    using first [THEN conjunct2, rule_format, OF usable, THEN conjunct2, rule_format, OF up] .
  moreover have "fst (api_team_no_league ?e ?cfg' ?st ''ars'') = Inr (JStr ?v)"
    using first' [THEN conjunct2, rule_format, OF usable', THEN conjunct2, rule_format, OF up'] .
  ultimately show ?thesis
    by (simp only: urls)
qed

section \<open>Status codes\<close>




section \<open>Fixtures\<close>

text \<open>
  C6 (as amended). When the resolver fails, \<open>api_fixtures\<close> raises 404 with the resolver's
  detail and leaves the state as it was. When it succeeds and the cache or upstream
  delivers a payload that is a dict whose member \<open>team\<close>, if there is one, is a dict, the
  result is \<open>{fixtures: s}\<close> where \<open>s\<close> is the value at \<open>team.nextEvent\<close>, or the empty list
  when \<open>team\<close> or \<open>nextEvent\<close> is missing.
\<close>

theorem api_fixtures_projection:
  "(\<forall>d. resolve_spec cfg team_slug league_slug = Inl d
        \<longrightarrow> api_fixtures e cfg st team_slug league_slug = (Inl (HTTPException 404 d), st))
 \<and> (\<forall>s i data st'.
        resolve_spec cfg team_slug league_slug = Inr (s, i)
        \<and> get_cached_team_data e st s (Some league_slug) (Some team_slug) i = (Inr data, st')
        \<and> team_readable data
      \<longrightarrow> api_fixtures e cfg st team_slug league_slug =
            (Inr (JObj [(''fixtures'',
                         case team_next_event data of None \<Rightarrow> JArr [] | Some v \<Rightarrow> v)]), st'))"
  by (simp add: api_fixtures_resolve fixtures_of_readable)

theorem api_fixtures_projection_witness:
  "fst (api_fixtures (demo_env 1000 (answers demo_payload))
          (demo_config [demo_team ''Arsenal'' ''eng.1'' ''ars'' (Some 359)])
          (demo_world []) ''ars'' ''eng.1'') =
     Inr (JObj [(''fixtures'', JArr [JStr ''Arsenal v Chelsea''])])
 \<and> fst (api_fixtures (demo_env 1000 (answers (JObj [])))
          (demo_config [demo_team ''Arsenal'' ''eng.1'' ''ars'' (Some 359)])
          (demo_world []) ''ars'' ''eng.1'') =
     Inr (JObj [(''fixtures'', JArr [])])
 \<and> fst (api_fixtures (demo_env 1000 (answers (JObj [])))
          (demo_config [demo_team ''Arsenal'' ''eng.1'' ''ars'' (Some 359)])
          (demo_world []) ''che'' ''eng.1'') =
     Inl (HTTPException 404 ''Team or league not found in config'')"
proof -
  let ?cfg = "demo_config [demo_team ''Arsenal'' ''eng.1'' ''ars'' (Some 359)]"
  let ?st = "demo_world []"
  let ?e1 = "demo_env 1000 (answers demo_payload)"
  let ?e2 = "demo_env 1000 (answers (JObj []))"
  let ?g1 = "get_cached_team_data ?e1 ?st ''soccer'' (Some ''eng.1'') (Some ''ars'') (Some 359)"
  let ?g2 = "get_cached_team_data ?e2 ?st ''soccer'' (Some ''eng.1'') (Some ''ars'') (Some 359)"
  have r: "resolve_spec ?cfg ''ars'' ''eng.1'' = Inr (''soccer'', Some 359)"
    by (simp add: demo_cfg_simps)
  have r': "resolve_spec ?cfg ''che'' ''eng.1'' = Inl ''Team or league not found in config''"
    by (simp add: demo_cfg_simps)
  have "fst ?g1 = Inr demo_payload"
    by (simp add: demo_run_simps answers_def)
  then have g1: "?g1 = (Inr demo_payload, snd ?g1)"
    by (metis prod.collapse)
  have "fst ?g2 = Inr (JObj [])"
    by (simp add: demo_run_simps answers_def)
  then have g2: "?g2 = (Inr (JObj []), snd ?g2)"
    by (metis prod.collapse)
  have s1: "team_readable demo_payload"
    and v1: "team_next_event demo_payload = Some (JArr [JStr ''Arsenal v Chelsea''])"
    by (simp_all add: team_readable_def team_next_event_def json_member_def is_object_def
        demo_payload_def)
  have s2: "team_readable (JObj [])" and v2: "team_next_event (JObj []) = None"
    by (simp_all add: team_readable_def team_next_event_def json_member_def is_object_def)
  have "api_fixtures ?e1 ?cfg ?st ''ars'' ''eng.1'' =
          (Inr (JObj [(''fixtures'', case team_next_event demo_payload of
                                       None \<Rightarrow> JArr [] | Some v \<Rightarrow> v)]), snd ?g1)"
    using api_fixtures_projection [of ?cfg "''ars''" "''eng.1''" ?e1 ?st, THEN conjunct2]
      r g1 s1 by blast
  moreover have "api_fixtures ?e2 ?cfg ?st ''ars'' ''eng.1'' =
          (Inr (JObj [(''fixtures'', case team_next_event (JObj []) of
                                       None \<Rightarrow> JArr [] | Some v \<Rightarrow> v)]), snd ?g2)"
    using api_fixtures_projection [of ?cfg "''ars''" "''eng.1''" ?e2 ?st, THEN conjunct2]
      r g2 s2 by blast
  moreover have "api_fixtures ?e2 ?cfg ?st ''che'' ''eng.1'' =
          (Inl (HTTPException 404 ''Team or league not found in config''), ?st)"
    using api_fixtures_projection [of ?cfg "''che''" "''eng.1''" ?e2 ?st, THEN conjunct1]
      r' by blast
  ultimately show ?thesis
    by (simp add: v1 v2)
qed

text \<open>
  C6 as stated fails for a payload whose \<open>team\<close> is not a dict: \<open>{team: null}\<close> has no
  value at \<open>team.nextEvent\<close>, yet the call does not return \<open>{fixtures: []}\<close> but raises
  \<open>AttributeError\<close>, \<open>None\<close> having no method \<open>get\<close>.
\<close>

theorem api_fixtures_null_team_counterexample:
  "resolve_spec (demo_config [demo_team ''Arsenal'' ''eng.1'' ''ars'' (Some 359)]) ''ars'' ''eng.1'' =
     Inr (''soccer'', Some 359)
 \<and> fst (get_cached_team_data (demo_env 1000 (answers (JObj [(''team'', JNull)])))
          (demo_world []) ''soccer'' (Some ''eng.1'') (Some ''ars'') (Some 359)) =
     Inr (JObj [(''team'', JNull)])
 \<and> team_next_event (JObj [(''team'', JNull)]) = None
 \<and> fst (api_fixtures (demo_env 1000 (answers (JObj [(''team'', JNull)])))
          (demo_config [demo_team ''Arsenal'' ''eng.1'' ''ars'' (Some 359)])
          (demo_world []) ''ars'' ''eng.1'') = Inl AttributeError"
  by (simp add: demo_cfg_simps demo_run_simps answers_def team_next_event_def json_member_def
      api_fixtures_def fixtures_of_def)

section \<open>The listing of all teams\<close>

lemma get_all_teams_loop_step:
  "get_all_teams_loop e cfg st results ((k, t) # rest) =
     (case team_step e cfg st t of
        (None, st') \<Rightarrow> get_all_teams_loop e cfg st' results rest
      | (Some row, st') \<Rightarrow> get_all_teams_loop e cfg st' (results @ [row]) rest)"
  by (simp add: team_step_def split: option.splits prod.splits sum.splits)

lemma get_all_teams_loop_results:
  "get_all_teams_loop e cfg st results ts =
     (results @ fst (get_all_teams_loop e cfg st [] ts),
      snd (get_all_teams_loop e cfg st [] ts))"
proof (induction ts arbitrary: st results)
  case Nil
  show ?case by simp
next
  case (Cons kt ts)
  obtain k t where kt: "kt = (k, t)" by (cases kt)
  obtain r st' where step: "team_step e cfg st t = (r, st')" by (cases "team_step e cfg st t")
  show ?case
  proof (cases r)
    case None
    then show ?thesis
      using Cons.IH [of st' results]
      by (simp only: kt get_all_teams_loop_step step prod.case option.case)
  next
    case (Some row)
    then show ?thesis
      using Cons.IH [of st' "results @ [row]"] Cons.IH [of st' "[row]"]
      by (simp only: kt get_all_teams_loop_step step prod.case option.case
          append_Nil append_assoc fst_conv snd_conv)
  qed
qed

lemma get_all_teams_loop_append:
  "get_all_teams_loop e cfg st results (xs @ ys) =
     (case get_all_teams_loop e cfg st results xs of
        (results', st') \<Rightarrow> get_all_teams_loop e cfg st' results' ys)"
proof (induction xs arbitrary: st results)
  case Nil
  show ?case by simp
next
  case (Cons kt xs)
  obtain k t where kt: "kt = (k, t)" by (cases kt)
  obtain r st' where step: "team_step e cfg st t = (r, st')" by (cases "team_step e cfg st t")
  show ?case
    using Cons.IH
    by (cases r) (simp_all only: kt append_Cons get_all_teams_loop_step step prod.case option.case)
qed

text \<open>
  C5. The claim: \<open>get_all_teams\<close> never raises, skips every team whose resolution fails,
  and returns one row per remaining team; with three teams configured, one of them
  without ESPN id, it returns two rows. The code does not check \<open>espn_id\<close> in this loop, as
  \<open>api_team\<close>, \<open>api_team_no_league\<close> and \<open>api_fixtures\<close> do, so a team without id is listed
  whenever \<open>get_cached_team_data\<close> finds a fresh entry under its key. Below, the third team
  has no id and shares league and slug with the first; upstream rejects the URL ending
  in \<open>None\<close>; two requests are made, and the listing has three rows, the third with the
  logo fetched for id 359.
\<close>

theorem get_all_teams_lists_team_without_id:
  "get_all_teams (demo_env 1000 reject_none)
         (demo_config [demo_team ''Arsenal'' ''eng.1'' ''ars'' (Some 359),
                       demo_team ''Chelsea'' ''eng.1'' ''che'' (Some 363),
                       demo_team ''Arsenal B'' ''eng.1'' ''ars'' None])
         (demo_world []) =
   (JArr [JObj [(''name'', JStr ''Arsenal''), (''league'', JStr ''eng.1''),
               (''espn_slug'', JStr ''ars''),
               (''logo'', JStr ''https://site.api.espn.com/apis/site/v2/sports/soccer/eng.1/teams/359'')],
         JObj [(''name'', JStr ''Chelsea''), (''league'', JStr ''eng.1''),
               (''espn_slug'', JStr ''che''),
               (''logo'', JStr ''https://site.api.espn.com/apis/site/v2/sports/soccer/eng.1/teams/363'')],
         JObj [(''name'', JStr ''Arsenal B''), (''league'', JStr ''eng.1''),
               (''espn_slug'', JStr ''ars''),
               (''logo'', JStr ''https://site.api.espn.com/apis/site/v2/sports/soccer/eng.1/teams/359'')]],
    \<lparr>cache = [''eng.1:ars'' \<mapsto> (1000, logo_payload ''https://site.api.espn.com/apis/site/v2/sports/soccer/eng.1/teams/359''),
              ''eng.1:che'' \<mapsto> (1000, logo_payload ''https://site.api.espn.com/apis/site/v2/sports/soccer/eng.1/teams/363'')],
      ticks = 3,
      requests = [''https://site.api.espn.com/apis/site/v2/sports/soccer/eng.1/teams/359'',
                  ''https://site.api.espn.com/apis/site/v2/sports/soccer/eng.1/teams/363'']\<rparr>)"
  by (simp add: demo_cfg_simps demo_run_simps get_all_teams_def logo_url_of_def team_row_def
      opt_json_def logo_payload_def reject_none_def numeral_3_eq_3)

text \<open>
  C9 (as amended). With a fresh entry under the key of (league_slug, team_slug),
  \<open>get_cached_team_data\<close> returns the stored payload and the same state for every
  \<open>sport_slug\<close> and \<open>team_id\<close>, \<open>None\<close> included, and requests nothing. Hence in
  \<open>get_all_teams\<close> a team without \<open>espn_id\<close> gets its row when the loop reaches it with its
  key freshly cached, provided the sport slug of its league resolves and the logo of the
  cached payload can be read.
\<close>

theorem fresh_entry_ignores_sport_and_id:
  "(\<forall>ts data. cache st (cache_key league_slug team_slug) = Some (ts, data)
        \<and> float_sub (clock e (ticks st)) ts < 3600
      \<longrightarrow> (\<forall>sport_slug team_id.
             get_cached_team_data e st sport_slug league_slug team_slug team_id =
               (Inr data, st\<lparr>ticks := Suc (ticks st)\<rparr>)))
 \<and> (\<forall>pre k t post rows st1 s ts data logo.
        teams cfg = pre @ (k, t) # post
        \<and> espn_id t = None
        \<and> get_all_teams_loop e cfg st [] pre = (rows, st1)
        \<and> find_sport_slug cfg (team_league t) = Some s \<and> s \<noteq> []
        \<and> cache st1 (cache_key (team_league t) (espn_slug t)) = Some (ts, data)
        \<and> float_sub (clock e (ticks st1)) ts < 3600
        \<and> logo_url_of data = Inr logo
      \<longrightarrow> (\<exists>rest. fst (get_all_teams e cfg st) = JArr (rows @ team_row t logo # rest)))"
proof (intro conjI allI impI)
  fix ts data sport_slug team_id
  assume "cache st (cache_key league_slug team_slug) = Some (ts, data)
        \<and> float_sub (clock e (ticks st)) ts < 3600"
  then have "cache st (cache_key league_slug team_slug) = Some (ts, data)"
    and "float_sub (clock e (ticks st)) ts < CACHE_EXPIRATION"
    by (simp_all add: CACHE_EXPIRATION_def)
  then show "get_cached_team_data e st sport_slug league_slug team_slug team_id =
               (Inr data, st\<lparr>ticks := Suc (ticks st)\<rparr>)"
    by (rule get_cached_hit)
next
  fix pre k t post rows st1 s ts data logo
  assume a: "teams cfg = pre @ (k, t) # post
        \<and> espn_id t = None
        \<and> get_all_teams_loop e cfg st [] pre = (rows, st1)
        \<and> find_sport_slug cfg (team_league t) = Some s \<and> s \<noteq> []
        \<and> cache st1 (cache_key (team_league t) (espn_slug t)) = Some (ts, data)
        \<and> float_sub (clock e (ticks st1)) ts < 3600
        \<and> logo_url_of data = Inr logo"
  then have tm: "teams cfg = pre @ (k, t) # post"
    and pre: "get_all_teams_loop e cfg st [] pre = (rows, st1)"
    and sp: "find_sport_slug cfg (team_league t) = Some s" "s \<noteq> []"
    and entry: "cache st1 (cache_key (team_league t) (espn_slug t)) = Some (ts, data)"
    and age: "float_sub (clock e (ticks st1)) ts < CACHE_EXPIRATION"
    and logo: "logo_url_of data = Inr logo"
    by (simp_all add: CACHE_EXPIRATION_def)
  have hit: "get_cached_team_data e st1 s (team_league t) (espn_slug t) (espn_id t) =
               (Inr data, st1\<lparr>ticks := Suc (ticks st1)\<rparr>)"
    using entry age by (rule get_cached_hit)
  have step: "team_step e cfg st1 t = (Some (team_row t logo), st1\<lparr>ticks := Suc (ticks st1)\<rparr>)"
    by (simp add: team_step_def sp hit logo)
  have "get_all_teams_loop e cfg st [] (teams cfg) =
          get_all_teams_loop e cfg (st1\<lparr>ticks := Suc (ticks st1)\<rparr>)
            (rows @ [team_row t logo]) post"
    by (simp add: tm get_all_teams_loop_append pre get_all_teams_loop_step step
        del: get_all_teams_loop.simps)
  also have "\<dots> = ((rows @ [team_row t logo])
                    @ fst (get_all_teams_loop e cfg (st1\<lparr>ticks := Suc (ticks st1)\<rparr>) [] post),
                  snd (get_all_teams_loop e cfg (st1\<lparr>ticks := Suc (ticks st1)\<rparr>) [] post))"
    by (rule get_all_teams_loop_results)
  finally show "\<exists>rest. fst (get_all_teams e cfg st) = JArr (rows @ team_row t logo # rest)"
    by (simp add: get_all_teams_def)
qed

theorem fresh_entry_ignores_sport_and_id_witness:
  "get_cached_team_data (demo_env 1000 down) (demo_world [(''eng.1:ars'', 900, demo_payload)])
      ''soccer'' (Some ''eng.1'') (Some ''ars'') (Some 359) =
   get_cached_team_data (demo_env 1000 down) (demo_world [(''eng.1:ars'', 900, demo_payload)])
      ''cricket'' (Some ''eng.1'') (Some ''ars'') None
 \<and> fst (get_cached_team_data (demo_env 1000 down)
          (demo_world [(''eng.1:ars'', 900, demo_payload)])
          ''cricket'' (Some ''eng.1'') (Some ''ars'') None) = Inr demo_payload
 \<and> (\<exists>rest. fst (get_all_teams (demo_env 1000 reject_none)
                   (demo_config [demo_team ''Arsenal'' ''eng.1'' ''ars'' (Some 359),
                                 demo_team ''Arsenal B'' ''eng.1'' ''ars'' None])
                   (demo_world [])) =
      JArr ([JObj [(''name'', JStr ''Arsenal''), (''league'', JStr ''eng.1''),
                   (''espn_slug'', JStr ''ars''),
                   (''logo'', JStr ''https://site.api.espn.com/apis/site/v2/sports/soccer/eng.1/teams/359'')]]
            @ JObj [(''name'', JStr ''Arsenal B''), (''league'', JStr ''eng.1''),
                    (''espn_slug'', JStr ''ars''),
                    (''logo'', JStr ''https://site.api.espn.com/apis/site/v2/sports/soccer/eng.1/teams/359'')]
              # rest))"
proof -
  let ?st = "demo_world [(''eng.1:ars'', 900, demo_payload)]"
  let ?e = "demo_env 1000 down"
  have young: "cache ?st (cache_key (Some ''eng.1'') (Some ''ars'')) = Some (900, demo_payload)
                 \<and> float_sub (clock ?e (ticks ?st)) 900 < 3600"
    by (simp add: demo_env_def demo_world_def demo_key demo_ages)
  note hit = fresh_entry_ignores_sport_and_id [THEN conjunct1, rule_format, OF young]
  have first: "get_cached_team_data ?e ?st ''soccer'' (Some ''eng.1'') (Some ''ars'') (Some 359) =
      get_cached_team_data ?e ?st ''cricket'' (Some ''eng.1'') (Some ''ars'') None"
    by (simp only: hit)
  have second: "fst (get_cached_team_data ?e ?st ''cricket'' (Some ''eng.1'') (Some ''ars'') None)
      = Inr demo_payload"
    by (simp only: hit fst_conv)
  let ?e2 = "demo_env 1000 reject_none"
  let ?u = "''https://site.api.espn.com/apis/site/v2/sports/soccer/eng.1/teams/359''"
  let ?a = "demo_team ''Arsenal'' ''eng.1'' ''ars'' (Some 359)"
  let ?b = "\<lparr>name = Some ''Arsenal B'', team_league = Some ''eng.1'', espn_slug = Some ''ars'',
              espn_id = None\<rparr>"
  let ?cfg = "demo_config [?a, demo_team ''Arsenal B'' ''eng.1'' ''ars'' None]"
  let ?pre = "get_all_teams_loop ?e2 ?cfg (demo_world []) [] [?a]"
  have rows: "fst ?pre = [JObj [(''name'', JStr ''Arsenal''), (''league'', JStr ''eng.1''),
                   (''espn_slug'', JStr ''ars''), (''logo'', JStr ?u)]]"
    and entry: "cache (snd ?pre) ''eng.1:ars'' = Some (1000, logo_payload ?u)"
    and tick: "clock ?e2 (ticks (snd ?pre)) = 1000"
    by (simp_all add: demo_cfg_simps demo_run_simps logo_url_of_def team_row_def opt_json_def
        logo_payload_def reject_none_def)
  have logo: "logo_url_of (logo_payload ?u) = Inr (JStr ?u)"
    by (simp add: logo_url_of_def logo_payload_def)
  have hyp: "teams ?cfg = [?a] @ (''Arsenal B'', ?b) # []
        \<and> espn_id ?b = None
        \<and> get_all_teams_loop ?e2 ?cfg (demo_world []) [] [?a] = (fst ?pre, snd ?pre)
        \<and> find_sport_slug ?cfg (team_league ?b) = Some ''soccer'' \<and> ''soccer'' \<noteq> []
        \<and> cache (snd ?pre) (cache_key (team_league ?b) (espn_slug ?b)) = Some (1000, logo_payload ?u)
        \<and> float_sub (clock ?e2 (ticks (snd ?pre))) 1000 < 3600
        \<and> logo_url_of (logo_payload ?u) = Inr (JStr ?u)"
    by (simp add: entry tick logo demo_key demo_ages)
       (simp add: demo_config_def demo_team_def demo_leagues_def find_sport_slug_def py_or_def
          truthy_str_def)
  have row: "team_row ?b (JStr ?u) =
               JObj [(''name'', JStr ''Arsenal B''), (''league'', JStr ''eng.1''),
                    (''espn_slug'', JStr ''ars''), (''logo'', JStr ?u)]"
    by (simp add: team_row_def opt_json_def)
  note third = fresh_entry_ignores_sport_and_id [THEN conjunct2, rule_format, OF hyp,
      unfolded rows row]
  from first second third show ?thesis
    by (intro conjI)
qed

text \<open>
  C9 as stated fails without the proviso. Here the payload cached by the first team has a
  number where the list of logos should be; the second team has no id and finds its key
  fresh, but \<open>logos[0]\<close> raises, the exception is swallowed, and no row is produced.
\<close>

theorem fresh_key_without_row_counterexample:
  "espn_id (snd (demo_team ''Arsenal B'' ''eng.1'' ''ars'' None)) = None
 \<and> fresh (demo_env 1000 (answers (JObj [(''team'', JObj [(''logos'', JNum 5)])])))
      (snd (get_all_teams_loop
              (demo_env 1000 (answers (JObj [(''team'', JObj [(''logos'', JNum 5)])])))
              (demo_config [demo_team ''Arsenal'' ''eng.1'' ''ars'' (Some 359),
                            demo_team ''Arsenal B'' ''eng.1'' ''ars'' None])
              (demo_world []) [] [demo_team ''Arsenal'' ''eng.1'' ''ars'' (Some 359)]))
      (cache_key (Some ''eng.1'') (Some ''ars''))
 \<and> fst (get_all_teams
          (demo_env 1000 (answers (JObj [(''team'', JObj [(''logos'', JNum 5)])])))
          (demo_config [demo_team ''Arsenal'' ''eng.1'' ''ars'' (Some 359),
                        demo_team ''Arsenal B'' ''eng.1'' ''ars'' None])
          (demo_world [])) = JArr []"
  by (simp add: demo_cfg_simps demo_run_simps answers_def get_all_teams_def logo_url_of_def)

end
